theory Spec2Isabelle
  imports Main "HOL-Library.Word" "HOL-Library.Sublist"
begin

unbundle bit_operations_syntax

section \<open>The ICMP sequence counter\<close>

text \<open>
  Both ICMP probers share the same package-level counter:
  \<^verbatim>\<open>
  var (
      icmpSequence      uint16
      icmpSequenceMutex sync.Mutex
  )
  func getICMPSequence() uint16 {
      icmpSequenceMutex.Lock()
      defer icmpSequenceMutex.Unlock()
      icmpSequence++
      return icmpSequence
  }
  \<close>
  The mutex makes every call one atomic read-modify-write, so the calls of a process
  form a sequence. A call is a state transition on the counter: it takes the value of
  \<open>icmpSequence\<close> and gives back the returned number and the new value of the
  variable. The counter is a 16-bit word, so \<open>++\<close> wraps from 65535 to 0.
\<close>

type_synonym uint16 = "16 word"

definition getICMPSequence :: "uint16 \<Rightarrow> uint16 \<times> uint16" where
  "getICMPSequence icmpSequence = (let s = icmpSequence + 1 in (s, s))"

text \<open>The value of the counter after \<open>n\<close> calls, starting from \<open>s\<close>.\<close>

fun after_calls :: "nat \<Rightarrow> uint16 \<Rightarrow> uint16" where
  "after_calls 0 s = s"
| "after_calls (Suc n) s = after_calls n (snd (getICMPSequence s))"

text \<open>
  The number returned by call number \<open>k\<close> (counted from 1) of a process, whose
  counter starts at the zero value of \<open>uint16\<close>.
\<close>

definition nth_sequence :: "nat \<Rightarrow> uint16" where
  "nth_sequence k = fst (getICMPSequence (after_calls (k - 1) 0))"

section \<open>Data shared by the probers\<close>

text \<open>
  A resolved address (\<^verbatim>\<open>*net.IPAddr\<close>). The probers only ask whether
  \<^verbatim>\<open>ip.IP.To4()\<close> is non-nil and print the address with \<^verbatim>\<open>String()\<close>.
\<close>

record ip_addr =
  To4_ok :: bool
  ip_String :: string

text \<open>
  A line of the log, with its level and the format string of the source. The arguments
  of the format (target, error text) come from the network and are not recorded.
\<close>

datatype log_entry = Warnf string | Errorf string

text \<open>
  A metric written to the response writer: the metric name and the number printed after
  it. Where the source prints a \<^verbatim>\<open>%f\<close> of a time, the number recorded
  here is the time in nanoseconds as an integer; the formatting of floats is not modelled.
\<close>

type_synonym metric = "string \<times> int"

section \<open>Module configuration\<close>

text \<open>
  The fields of \<^verbatim>\<open>HTTPProbe\<close> that \<^verbatim>\<open>probeHTTP\<close> reads.
  \<open>Headers\<close> is a Go map; it is given here as the list of its entries in the order
  in which the \<^verbatim>\<open>range\<close> loop visits them. The fields \<^verbatim>\<open>Protocol\<close>
  and \<^verbatim>\<open>PreferredIPProtocol\<close> occur in several probe configurations and carry
  the prober as a prefix here.
\<close>

record HTTPProbe =
  ValidStatusCodes :: "int list"
  NoFollowRedirects :: bool
  FailIfSSL :: bool
  FailIfNotSSL :: bool
  Method :: string
  Headers :: "(string \<times> string) list"
  FailIfMatchesRegexp :: "string list"
  FailIfNotMatchesRegexp :: "string list"
  HTTP_Protocol :: string
  HTTP_PreferredIPProtocol :: string
  Body :: string

record ICMPProbe =
  ICMP_Protocol :: string
  ICMP_PreferredIPProtocol :: string

text \<open>
  \<^verbatim>\<open>config.DNSRRValidator\<close>; its two fields have the names of the two regexp lists
  of \<^verbatim>\<open>HTTPProbe\<close> and carry the prefix \<open>RR\<close> here.
\<close>

record DNSRRValidator =
  RR_FailIfMatchesRegexp :: "string list"
  RR_FailIfNotMatchesRegexp :: "string list"

text \<open>
  \<open>ValidRcodes\<close> is a Go slice that the code compares with \<^verbatim>\<open>nil\<close>: \<open>None\<close>
  is the nil slice, \<open>Some names\<close> a slice that is not nil (\<open>Some []\<close> is the empty
  slice that a configuration \<^verbatim>\<open>valid_rcodes: []\<close> gives).
\<close>

record DNSProbe =
  TransportProtocol :: string
  DNS_PreferredIPProtocol :: string
  QueryName :: string
  QueryType :: string
  ValidRcodes :: "string list option"
  ValidateAnswer :: DNSRRValidator
  ValidateAuthority :: DNSRRValidator
  ValidateAdditional :: DNSRRValidator

text \<open>\<open>Timeout\<close> is a duration in nanoseconds.\<close>

record Module =
  Timeout :: int
  HTTP :: HTTPProbe
  ICMP :: ICMPProbe
  DNS :: DNSProbe

section \<open>The HTTP prober (http.go)\<close>

text \<open>
  \<^verbatim>\<open>tls.ConnectionState\<close> is kept abstract: the prober only hands it to
  \<^verbatim>\<open>getEarliestCertExpiry\<close>. It is represented by the expiry times of the
  peer certificates (Unix nanoseconds).
\<close>

type_synonym connection_state = "int list"

text \<open>
  \<^verbatim>\<open>http.Response\<close>: \<open>resp_Body\<close> is what \<^verbatim>\<open>ioutil.ReadAll\<close>
  gives on the body, \<open>None\<close> when reading fails.
\<close>

record response =
  StatusCode :: int
  ContentLength :: int
  TLS :: "connection_state option"
  resp_Body :: "string option"

text \<open>The zero value \<^verbatim>\<open>&http.Response{}\<close>.\<close>

definition empty_response :: response where
  "empty_response =
     \<lparr>StatusCode = 0, ContentLength = 0, TLS = None, resp_Body = Some []\<rparr>"

text \<open>
  \<^verbatim>\<open>http.Request\<close>: the authority, the header (canonical key to values) and the
  body that the prober sets.
\<close>

record request =
  req_Method :: string
  req_URL :: string
  req_Host :: string
  req_Header :: "string \<rightharpoonup> string list"
  req_Body :: "string option"

text \<open>
  What \<^verbatim>\<open>client.Do\<close> returns. \<open>DoResponse r e\<close> is a non-nil response,
  with \<open>e\<close> telling whether the error is non-nil as well (a stopped redirect);
  \<open>DoFailed\<close> is a nil response with an error. The client never returns a nil
  response with a nil error.
\<close>

datatype do_result = DoFailed | DoResponse response bool

text \<open>
  The \<^verbatim>\<open>http.Client\<close> that the prober builds: its timeout, the network on which
  its transport dials, the keep-alive switch, and the redirect policy as a function of
  \<^verbatim>\<open>len(via)\<close> that tells whether \<^verbatim>\<open>CheckRedirect\<close> returns an error.
\<close>

record http_client =
  client_Timeout :: int
  Dial_network :: string
  DisableKeepAlives :: bool
  CheckRedirect :: "nat \<Rightarrow> bool"

text \<open>
  The world outside \<^verbatim>\<open>probeHTTP\<close>: the library calls whose results depend on
  the network, the resolver or code outside the file.
  \<^item> \<open>url_Parse\<close>: \<^verbatim>\<open>url.Parse(target)\<close>, giving \<^verbatim>\<open>targetURL.Host\<close>, \<open>None\<close> on error;
  \<^item> \<open>http_SplitHostPort\<close>: \<^verbatim>\<open>net.SplitHostPort\<close>, \<open>None\<close> on error;
  \<^item> \<open>http_ResolveIPAddr\<close>: \<^verbatim>\<open>net.ResolveIPAddr(network, host)\<close>, \<open>None\<close> on error;
  \<^item> \<open>GenerateConfig_ok\<close>: \<^verbatim>\<open>module.HTTP.TLSConfig.GenerateConfig()\<close> returned no error;
  \<^item> \<open>http_NewRequest\<close>: \<^verbatim>\<open>http.NewRequest(method, target, nil)\<close>, \<open>None\<close> on error;
  \<^item> \<open>CanonicalHeaderKey\<close>: the key under which \<^verbatim>\<open>Header.Set\<close> stores a value;
  \<^item> \<open>client_Do\<close>: the lengths of \<^verbatim>\<open>via\<close> at the calls of
    \<^verbatim>\<open>CheckRedirect\<close> made while the request ran, and the result of the request;
  \<^item> \<open>regexp_Match\<close>: \<^verbatim>\<open>regexp.Compile(expression)\<close> followed by
    \<^verbatim>\<open>re.Match(body)\<close>, \<open>None\<close> when the expression does not compile;
  \<^item> \<open>getEarliestCertExpiry\<close>: the function of that name, as Unix nanoseconds.
\<close>

record http_env =
  url_Parse :: "string \<Rightarrow> string option"
  http_SplitHostPort :: "string \<Rightarrow> (string \<times> string) option"
  http_ResolveIPAddr :: "string \<Rightarrow> string \<Rightarrow> ip_addr option"
  GenerateConfig_ok :: bool
  http_NewRequest :: "string \<Rightarrow> string \<Rightarrow> request option"
  CanonicalHeaderKey :: "string \<Rightarrow> string"
  client_Do :: "http_client \<Rightarrow> request \<Rightarrow> nat list \<times> do_result"
  regexp_Match :: "string \<Rightarrow> string \<Rightarrow> bool option"
  getEarliestCertExpiry :: "connection_state \<Rightarrow> int"

text \<open>
  What a call of \<^verbatim>\<open>probeHTTP\<close> does: the two values it returns, the lines it
  writes to \<^verbatim>\<open>w\<close> in order, the calls of \<^verbatim>\<open>net.ResolveIPAddr\<close>
  (network, host) in order, the log lines, and the client and the request of the call
  \<^verbatim>\<open>client.Do(request)\<close> if the probe got that far.
\<close>

record http_result =
  success :: bool
  probe_error :: string
  written :: "metric list"
  lookups :: "(string \<times> string) list"
  logged :: "log_entry list"
  sent :: "(http_client \<times> request) option"

subsection \<open>strings.Title\<close>

text \<open>
  \<^verbatim>\<open>strings.Title\<close> maps to title case every letter that begins a word, that is,
  every letter whose predecessor is a separator (the first letter counts as preceded by
  a blank), and leaves every other character as it is. On ASCII, the separators are all
  characters but letters, digits and the underscore, and title case is upper case. The
  model works on bytes: a byte beyond ASCII is part of a longer rune, and is taken as
  no separator and left unchanged.
\<close>

definition isSeparator :: "char \<Rightarrow> bool" where
  "isSeparator r =
     (let c = (of_char r :: nat) in
      if c \<le> 127 then
        (if 48 \<le> c \<and> c \<le> 57 then False
         else if 97 \<le> c \<and> c \<le> 122 then False
         else if 65 \<le> c \<and> c \<le> 90 then False
         else if c = 95 then False
         else True)
      else False)"

definition ToTitle :: "char \<Rightarrow> char" where
  "ToTitle r =
     (let c = (of_char r :: nat) in
      if 97 \<le> c \<and> c \<le> 122 then char_of (c - 32) else r)"

fun Title_from :: "char \<Rightarrow> string \<Rightarrow> string" where
  "Title_from prev [] = []"
| "Title_from prev (r # s) =
     (if isSeparator prev then ToTitle r # Title_from r s else r # Title_from r s)"

definition strings_Title :: "string \<Rightarrow> string" where
  "strings_Title s = Title_from (CHR '' '') s"

subsection \<open>The header loop\<close>

text \<open>
  \<^verbatim>\<open>
  for key, value := range config.Headers {
      if strings.Title(key) == "Host" {
          request.Host = value
          continue
      }
      request.Header.Set(key, value)
  }
  \<close>
\<close>

fun set_headers :: "(string \<Rightarrow> string) \<Rightarrow> (string \<times> string) list \<Rightarrow> request \<Rightarrow> request" where
  "set_headers canon [] request = request"
| "set_headers canon ((key, value) # hs) request =
     (if strings_Title key = ''Host''
      then set_headers canon hs (request\<lparr>req_Host := value\<rparr>)
      else set_headers canon hs
             (request\<lparr>req_Header := (req_Header request)(canon key \<mapsto> [value])\<rparr>))"

subsection \<open>matchRegularExpressions\<close>

text \<open>
  The two loops over the configured expressions. Each gives \<open>Some\<close> of what
  \<^verbatim>\<open>matchRegularExpressions\<close> returns from inside the loop, with the log line of
  that return if there is one, and \<open>None\<close> when the loop runs to its end.
\<close>

fun fail_if_matches :: "(string \<Rightarrow> string \<Rightarrow> bool option) \<Rightarrow> string \<Rightarrow> string list
    \<Rightarrow> (bool \<times> string \<times> log_entry list) option" where
  "fail_if_matches m body [] = None"
| "fail_if_matches m body (expression # es) =
     (case m expression body of
        None \<Rightarrow> Some (False, ''Could not compile regexp'',
                 [Errorf ''Could not compile expression %q as regular expression: %s''])
      | Some matched \<Rightarrow>
          if matched then Some (False, ''Match failed'', [])
          else fail_if_matches m body es)"

fun fail_if_not_matches :: "(string \<Rightarrow> string \<Rightarrow> bool option) \<Rightarrow> string \<Rightarrow> string list
    \<Rightarrow> (bool \<times> string \<times> log_entry list) option" where
  "fail_if_not_matches m body [] = None"
| "fail_if_not_matches m body (expression # es) =
     (case m expression body of
        None \<Rightarrow> Some (False, ''Could not compile regexp'',
                 [Errorf ''Could not compile expression %q as regular expression: %s''])
      | Some matched \<Rightarrow>
          if \<not> matched then Some (False, ''Match failed'', [])
          else fail_if_not_matches m body es)"

definition matchRegularExpressions :: "http_env \<Rightarrow> string option \<Rightarrow> HTTPProbe
    \<Rightarrow> bool \<times> string \<times> log_entry list" where
  "matchRegularExpressions env reader config =
     (case reader of
        None \<Rightarrow> (False, ''Error reading HTTP body'', [Errorf ''Error reading HTTP body: %s''])
      | Some body \<Rightarrow>
          (case fail_if_matches (regexp_Match env) body (FailIfMatchesRegexp config) of
             Some r \<Rightarrow> r
           | None \<Rightarrow>
               (case fail_if_not_matches (regexp_Match env) body (FailIfNotMatchesRegexp config) of
                  Some r \<Rightarrow> r
                | None \<Rightarrow> (True, [], []))))"

subsection \<open>probeHTTP\<close>

text \<open>
  The status check of lines 169 to 180. The named result \<^verbatim>\<open>success\<close> starts as
  \<^verbatim>\<open>false\<close>; the loop over \<^verbatim>\<open>ValidStatusCodes\<close> sets it and breaks at the
  first code that equals the status code.
\<close>

fun status_listed :: "int \<Rightarrow> int list \<Rightarrow> bool" where
  "status_listed sc [] = False"
| "status_listed sc (code # codes) = (if sc = code then True else status_listed sc codes)"

definition status_check :: "int list \<Rightarrow> int \<Rightarrow> bool" where
  "status_check codes sc =
     (if length codes \<noteq> 0 then status_listed sc codes
      else if 200 \<le> sc \<and> sc < 300 then True
      else False)"

text \<open>
  Lines 163 to 207: the request is executed and its outcome evaluated. \<open>w\<close> and
  \<open>lk\<close> are the lines written and the lookups made before. The variable
  \<^verbatim>\<open>redirects\<close> holds \<^verbatim>\<open>len(via)\<close> of the last call of
  \<^verbatim>\<open>CheckRedirect\<close>, and 0 if there was none.
\<close>

definition probeHTTP_do :: "http_env \<Rightarrow> HTTPProbe \<Rightarrow> http_client \<Rightarrow> metric list
    \<Rightarrow> (string \<times> string) list \<Rightarrow> request \<Rightarrow> http_result" where
  "probeHTTP_do env config client w lk request =
     (let (vias, res) = client_Do env client request;
          redirects = (if vias = [] then 0 else last vias);
          (success1, probe_error1, log1) =
            (case res of
               DoFailed \<Rightarrow> (False, [], [Warnf ''Error for HTTP request to %s: %s''])
             | DoResponse resp e \<Rightarrow>
                 (let success0 = status_check (ValidStatusCodes config) (StatusCode resp) in
                  if success0 \<and> (length (FailIfMatchesRegexp config) > 0
                                 \<or> length (FailIfNotMatchesRegexp config) > 0)
                  then matchRegularExpressions env (resp_Body resp) config
                  else (success0, [], [])));
          resp = (case res of DoFailed \<Rightarrow> empty_response | DoResponse r e \<Rightarrow> r);
          isSSL = (if TLS resp \<noteq> None then 1 else 0);
          w_tls = (case TLS resp of
                     Some cs \<Rightarrow> [(''probe_ssl_earliest_cert_expiry'', getEarliestCertExpiry env cs)]
                   | None \<Rightarrow> []);
          (success2, probe_error2) =
            (case TLS resp of
               Some cs \<Rightarrow> if FailIfSSL config then (False, ''SSL failed'')
                          else (success1, probe_error1)
             | None \<Rightarrow> if FailIfNotSSL config then (False, ''SSL failed'')
                       else (success1, probe_error1))
      in \<lparr>success = success2, probe_error = probe_error2,
          written = w @ w_tls @
            [(''probe_http_status_code'', StatusCode resp),
             (''probe_http_content_length'', ContentLength resp),
             (''probe_http_redirects'', int redirects),
             (''probe_http_ssl'', isSSL)],
          lookups = lk, logged = log1, sent = Some (client, request)\<rparr>)"

text \<open>
  Lines 107 to 161: the line \<^verbatim>\<open>probe_ip_protocol\<close>, the client, the TLS
  configuration, the request with its headers and body.
\<close>

definition probeHTTP_request :: "http_env \<Rightarrow> string \<Rightarrow> Module \<Rightarrow> HTTPProbe \<Rightarrow> string
    \<Rightarrow> (string \<times> string) list \<Rightarrow> http_result" where
  "probeHTTP_request env target module config dialProtocol lk =
     (let w = [(''probe_ip_protocol'', if dialProtocol = ''tcp6'' then 6 else 4)] in
      if \<not> GenerateConfig_ok env then
        \<lparr>success = False, probe_error = ''Error generating TLS config'', written = w,
         lookups = lk, logged = [Errorf ''Error generating TLS config: %s''], sent = None\<rparr>
      else
        (let client = \<lparr>client_Timeout = Timeout module, Dial_network = dialProtocol,
                       DisableKeepAlives = True,
                       CheckRedirect = (\<lambda>redirects. redirects > 10 \<or> NoFollowRedirects config)\<rparr>;
             method = (if Method config = [] then ''GET'' else Method config)
         in case http_NewRequest env method target of
              None \<Rightarrow>
                \<lparr>success = False, probe_error = ''Error creating request for target'',
                 written = w, lookups = lk,
                 logged = [Errorf ''Error creating request for target %s: %s''], sent = None\<rparr>
            | Some request0 \<Rightarrow>
                (let request1 = set_headers (CanonicalHeaderKey env) (Headers config) request0;
                     request2 = (if Body config \<noteq> [] then request1\<lparr>req_Body := Some (Body config)\<rparr>
                                 else request1)
                 in probeHTTP_do env config client w lk request2)))"

text \<open>
  Lines 65 to 79: the values of \<^verbatim>\<open>module.HTTP.Protocol\<close>,
  \<^verbatim>\<open>module.HTTP.PreferredIPProtocol\<close>, \<^verbatim>\<open>fallbackProtocol\<close> and
  \<^verbatim>\<open>target\<close> after the defaults are filled in.
\<close>

definition http_protocol :: "Module \<Rightarrow> string" where
  "http_protocol module =
     (if HTTP_Protocol (HTTP module) = [] then ''tcp'' else HTTP_Protocol (HTTP module))"

definition http_preferred :: "Module \<Rightarrow> string" where
  "http_preferred module =
     (if http_protocol module = ''tcp'' \<and> HTTP_PreferredIPProtocol (HTTP module) = []
      then ''ip6'' else HTTP_PreferredIPProtocol (HTTP module))"

definition http_fallback :: "Module \<Rightarrow> string" where
  "http_fallback module = (if http_preferred module = ''ip6'' then ''ip4'' else ''ip6'')"

definition http_target :: "string \<Rightarrow> string" where
  "http_target target =
     (if \<not> prefix ''http://'' target \<and> \<not> prefix ''https://'' target
      then ''http://'' @ target else target)"

text \<open>
  \<^verbatim>\<open>probeHTTP\<close>, lines 59 to 105: the resolution of the target host, and then the
  rest of the function. \<^verbatim>\<open>config\<close> is the copy of \<^verbatim>\<open>module.HTTP\<close> taken
  before the defaults are written into the module.
\<close>

definition probeHTTP :: "http_env \<Rightarrow> string \<Rightarrow> Module \<Rightarrow> http_result" where
  "probeHTTP env target0 module =
     (let config = HTTP module;
          protocol = http_protocol module;
          preferred = http_preferred module;
          fallbackProtocol = http_fallback module;
          target = http_target target0
      in if protocol = ''tcp'' then
           (case url_Parse env target of
              None \<Rightarrow>
                \<lparr>success = False, probe_error = ''Could not parse target URL'', written = [],
                 lookups = [], logged = [], sent = None\<rparr>
            | Some url_Host \<Rightarrow>
                (let targetHost = (case http_SplitHostPort env url_Host of
                                     None \<Rightarrow> url_Host
                                   | Some (h, p) \<Rightarrow> h)
                 in case http_ResolveIPAddr env preferred targetHost of
                      Some ip \<Rightarrow>
                        probeHTTP_request env target module config
                          (if To4_ok ip then ''tcp4'' else ''tcp6'')
                          [(preferred, targetHost)]
                    | None \<Rightarrow>
                        (case http_ResolveIPAddr env fallbackProtocol targetHost of
                           None \<Rightarrow>
                             \<lparr>success = False, probe_error = ''Error resolving address'',
                              written = [],
                              lookups = [(preferred, targetHost), (fallbackProtocol, targetHost)],
                              logged = [], sent = None\<rparr>
                         | Some ip \<Rightarrow>
                             probeHTTP_request env target module config
                               (if To4_ok ip then ''tcp4'' else ''tcp6'')
                               [(preferred, targetHost), (fallbackProtocol, targetHost)])))
         else probeHTTP_request env target module config protocol [])"

section \<open>The ICMP probers (icmp.go and its variant with registered gauges)\<close>

type_synonym byte = "8 word"

text \<open>The four message types the probers use; the IPv4 and IPv6 types are distinct Go types.\<close>

datatype icmp_type =
  ipv4_ICMPTypeEcho | ipv4_ICMPTypeEchoReply | ipv6_ICMPTypeEchoRequest | ipv6_ICMPTypeEchoReply

text \<open>\<^verbatim>\<open>icmp.Message\<close> with an \<^verbatim>\<open>icmp.Echo\<close> body.\<close>

record icmp_message =
  msg_Type :: icmp_type
  msg_Code :: int
  echo_ID :: int
  echo_Seq :: int
  echo_Data :: string

text \<open>
  What one call of \<^verbatim>\<open>socket.ReadFrom(rb)\<close> gives: a packet (its bytes and
  \<^verbatim>\<open>peer.String()\<close>), an error whose \<^verbatim>\<open>Timeout()\<close> is true, or another error.
\<close>

datatype read_event = ReadPacket "byte list" string | ReadTimeout | ReadError

text \<open>
  The world outside \<^verbatim>\<open>probeICMP\<close>:
  \<^item> \<open>icmp_ResolveIPAddr\<close>: \<^verbatim>\<open>net.ResolveIPAddr(network, host)\<close>, \<open>None\<close> on error;
  \<^item> \<open>resolve_time\<close>: \<^verbatim>\<open>time.Since(resolveStart)\<close>, in nanoseconds;
  \<^item> \<open>ListenPacket\<close>: whether \<^verbatim>\<open>icmp.ListenPacket(network, address)\<close> gives a socket;
  \<^item> \<open>Getpid\<close>: \<^verbatim>\<open>os.Getpid()\<close>;
  \<^item> \<open>Marshal\<close>: \<^verbatim>\<open>wm.Marshal(nil)\<close>, \<open>None\<close> on error;
  \<^item> \<open>WriteTo\<close>: whether \<^verbatim>\<open>socket.WriteTo(wb, ip)\<close> returns no error;
  \<^item> \<open>SetReadDeadline_ok\<close>: whether \<^verbatim>\<open>socket.SetReadDeadline(deadline)\<close> returns no error;
  \<^item> \<open>reads\<close>: what the successive calls of \<^verbatim>\<open>socket.ReadFrom\<close> give. The deadline
    of the socket shows as a \<open>ReadTimeout\<close> in this list.
\<close>

record icmp_env =
  icmp_ResolveIPAddr :: "string \<Rightarrow> string \<Rightarrow> ip_addr option"
  resolve_time :: int
  ListenPacket :: "string \<Rightarrow> string \<Rightarrow> bool"
  Getpid :: int
  Marshal :: "icmp_message \<Rightarrow> byte list option"
  WriteTo :: "byte list \<Rightarrow> ip_addr \<Rightarrow> bool"
  SetReadDeadline_ok :: bool
  reads :: "read_event list"

subsection \<open>icmp.go: metrics written to the response writer\<close>

text \<open>
  \<open>icmp_returned\<close> is what the call returns, \<open>None\<close> as long as the prober is still
  in its read loop after the last read of \<open>reads\<close>.
\<close>

record icmp_result =
  icmp_returned :: "(bool \<times> string) option"
  icmp_written :: "metric list"
  icmp_lookups :: "(string \<times> string) list"
  icmp_logged :: "log_entry list"

text \<open>
  The read loop of lines 139 to 160. \<open>ip\<close> is \<^verbatim>\<open>ip.String()\<close>, \<open>wb\<close> the
  expected reply and \<open>rb\<close> the buffer of 1500 bytes, which a read overwrites from its
  start with the \<open>n\<close> bytes of the packet. The result is the log of the loop and what
  the loop returns.
\<close>

fun read_loop :: "string \<Rightarrow> icmp_type \<Rightarrow> byte list \<Rightarrow> byte list \<Rightarrow> read_event list
    \<Rightarrow> log_entry list \<times> (bool \<times> string) option" where
  "read_loop ip replyType wb rb [] = ([], None)"
| "read_loop ip replyType wb rb (ReadTimeout # es) =
     ([Warnf ''Timeout reading from socket for %s: %s''],
      Some (False, ''Timeout reading from socket''))"
| "read_loop ip replyType wb rb (ReadError # es) =
     (case read_loop ip replyType wb rb es of
        (l, r) \<Rightarrow> (Errorf ''Error reading from socket for %s: %s'' # l, r))"
| "read_loop ip replyType wb rb (ReadPacket data peer # es) =
     (let n = min (length data) (length rb);
          rb1 = take n data @ drop n rb
      in if peer \<noteq> ip then read_loop ip replyType wb rb1 es
         else
           (let rb2 = (if replyType = ipv6_ICMPTypeEchoReply then rb1[2 := 0, 3 := 0] else rb1)
            in if take n rb2 = wb then ([], Some (True, []))
               else read_loop ip replyType wb rb2 es))"

text \<open>Lines 88 to 160, after the address is resolved.\<close>

definition probeICMP_echo :: "icmp_env \<Rightarrow> ip_addr \<Rightarrow> metric list \<Rightarrow> (string \<times> string) list
    \<Rightarrow> uint16 \<Rightarrow> icmp_result \<times> uint16" where
  "probeICMP_echo env ip w lk icmpSequence =
     (let v6 = \<not> To4_ok ip;
          requestType = (if v6 then ipv6_ICMPTypeEchoRequest else ipv4_ICMPTypeEcho);
          replyType = (if v6 then ipv6_ICMPTypeEchoReply else ipv4_ICMPTypeEchoReply);
          listening = (if v6 then ListenPacket env ''ip6:ipv6-icmp'' ''::''
                       else ListenPacket env ''ip4:icmp'' ''0.0.0.0'');
          w2 = w @ [(''probe_ip_protocol'', if v6 then 6 else 4)]
      in if \<not> listening then
           (\<lparr>icmp_returned = Some (False, ''Error listening to socket''), icmp_written = w2,
             icmp_lookups = lk,
             icmp_logged = [Errorf ''Error listening to socket for %s: %s'']\<rparr>, icmpSequence)
         else
           (case getICMPSequence icmpSequence of
              (seq, icmpSequence') \<Rightarrow>
                (let wm = \<lparr>msg_Type = requestType, msg_Code = 0,
                           echo_ID = Getpid env AND 0xffff, echo_Seq = uint seq,
                           echo_Data = ''Prometheus Blackbox Exporter''\<rparr>
                 in case Marshal env wm of
                      None \<Rightarrow>
                        (\<lparr>icmp_returned = Some (False, ''Error marshalling packet''),
                          icmp_written = w2, icmp_lookups = lk,
                          icmp_logged = [Errorf ''Error marshalling packet for %s: %s'']\<rparr>,
                         icmpSequence')
                    | Some wb \<Rightarrow>
                        if \<not> WriteTo env wb ip then
                          (\<lparr>icmp_returned = Some (False, ''Error writing to socket''),
                            icmp_written = w2, icmp_lookups = lk,
                            icmp_logged = [Warnf ''Error writing to socket for %s: %s'']\<rparr>,
                           icmpSequence')
                        else
                          (case Marshal env (wm\<lparr>msg_Type := replyType\<rparr>) of
                             None \<Rightarrow>
                               (\<lparr>icmp_returned = Some (False, ''Error marshalling packet''),
                                 icmp_written = w2, icmp_lookups = lk,
                                 icmp_logged = [Errorf ''Error marshalling packet for %s: %s'']\<rparr>,
                                icmpSequence')
                           | Some wb' \<Rightarrow>
                               if \<not> SetReadDeadline_ok env then
                                 (\<lparr>icmp_returned = Some (False, ''Error setting socket deadline''),
                                   icmp_written = w2, icmp_lookups = lk,
                                   icmp_logged =
                                     [Errorf ''Error setting socket deadline for %s: %s'']\<rparr>,
                                  icmpSequence')
                               else
                                 (case read_loop (ip_String ip) replyType wb'
                                         (replicate 1500 0) (reads env) of
                                    (l, r) \<Rightarrow>
                                      (\<lparr>icmp_returned = r, icmp_written = w2,
                                        icmp_lookups = lk, icmp_logged = l\<rparr>,
                                       icmpSequence'))))))"

text \<open>
  Lines 54 to 74: the values of \<^verbatim>\<open>module.ICMP.Protocol\<close>,
  \<^verbatim>\<open>module.ICMP.PreferredIPProtocol\<close> and \<^verbatim>\<open>fallbackProtocol\<close> after the
  defaults are filled in and the family is forced. The variant with gauges has the same
  lines.
\<close>

definition icmp_protocol :: "Module \<Rightarrow> string" where
  "icmp_protocol module =
     (if ICMP_Protocol (ICMP module) = [] then ''icmp'' else ICMP_Protocol (ICMP module))"

definition icmp_preferred :: "Module \<Rightarrow> string" where
  "icmp_preferred module =
     (let preferred0 =
            (if icmp_protocol module = ''icmp'' \<and> ICMP_PreferredIPProtocol (ICMP module) = []
             then ''ip6'' else ICMP_PreferredIPProtocol (ICMP module))
      in if icmp_protocol module = ''icmp4'' then ''ip4''
         else if icmp_protocol module = ''icmp6'' then ''ip6''
         else preferred0)"

definition icmp_fallback :: "Module \<Rightarrow> string" where
  "icmp_fallback module =
     (if icmp_protocol module = ''icmp4'' then []
      else if icmp_protocol module = ''icmp6'' then []
      else if icmp_preferred module = ''ip6'' then ''ip4''
      else ''ip6'')"

text \<open>\<^verbatim>\<open>probeICMP\<close>, lines 44 to 86: the resolution, and then the rest.\<close>

definition probeICMP :: "icmp_env \<Rightarrow> string \<Rightarrow> Module \<Rightarrow> uint16 \<Rightarrow> icmp_result \<times> uint16" where
  "probeICMP env target module icmpSequence =
     (let preferred = icmp_preferred module;
          fallbackProtocol = icmp_fallback module;
          first = icmp_ResolveIPAddr env preferred target;
          second = (first = None \<and> fallbackProtocol \<noteq> []);
          resolved = (if second then icmp_ResolveIPAddr env fallbackProtocol target else first);
          lk = (if second then [(preferred, target), (fallbackProtocol, target)]
                else [(preferred, target)]);
          w = [(''probe_dns_lookup_time_seconds'', resolve_time env)]
      in case resolved of
           None \<Rightarrow>
             (\<lparr>icmp_returned = Some (False, ''Error resolving address''), icmp_written = w,
               icmp_lookups = lk,
               icmp_logged = [Warnf ''Error resolving address %s: %s'']\<rparr>, icmpSequence)
         | Some ip \<Rightarrow> probeICMP_echo env ip w lk icmpSequence)"

subsection \<open>The variant with registered gauges\<close>

text \<open>
  The second \<^verbatim>\<open>probeICMP\<close> takes a registry, registers the gauges
  \<^verbatim>\<open>probe_ip_protocol\<close> and \<^verbatim>\<open>probe_dns_lookup_time_seconds\<close> at its start
  and returns only \<^verbatim>\<open>success\<close>. A registered gauge holds 0 until it is set. The two
  gauges are fields of the result; the time is in nanoseconds.
\<close>

record registry_result =
  reg_returned :: "bool option"
  probeIPProtocolGauge :: int
  probeDNSLookupTimeSeconds :: int
  reg_lookups :: "(string \<times> string) list"
  reg_logged :: "log_entry list"

fun read_loop_registry :: "string \<Rightarrow> icmp_type \<Rightarrow> byte list \<Rightarrow> byte list \<Rightarrow> read_event list
    \<Rightarrow> log_entry list \<times> bool option" where
  "read_loop_registry ip replyType wb rb [] = ([], None)"
| "read_loop_registry ip replyType wb rb (ReadTimeout # es) =
     ([Warnf ''Timeout reading from socket for %s: %s''], Some False)"
| "read_loop_registry ip replyType wb rb (ReadError # es) =
     (case read_loop_registry ip replyType wb rb es of
        (l, r) \<Rightarrow> (Errorf ''Error reading from socket for %s: %s'' # l, r))"
| "read_loop_registry ip replyType wb rb (ReadPacket data peer # es) =
     (let n = min (length data) (length rb);
          rb1 = take n data @ drop n rb
      in if peer \<noteq> ip then read_loop_registry ip replyType wb rb1 es
         else
           (let rb2 = (if replyType = ipv6_ICMPTypeEchoReply then rb1[2 := 0, 3 := 0] else rb1)
            in if take n rb2 = wb then ([], Some True)
               else read_loop_registry ip replyType wb rb2 es))"

definition probeICMP_registry_echo :: "icmp_env \<Rightarrow> ip_addr \<Rightarrow> int \<Rightarrow> (string \<times> string) list
    \<Rightarrow> uint16 \<Rightarrow> registry_result \<times> uint16" where
  "probeICMP_registry_echo env ip t lk icmpSequence =
     (let v6 = \<not> To4_ok ip;
          requestType = (if v6 then ipv6_ICMPTypeEchoRequest else ipv4_ICMPTypeEcho);
          replyType = (if v6 then ipv6_ICMPTypeEchoReply else ipv4_ICMPTypeEchoReply);
          listening = (if v6 then ListenPacket env ''ip6:ipv6-icmp'' ''::''
                       else ListenPacket env ''ip4:icmp'' ''0.0.0.0'');
          g = (if v6 then 6 else 4)
      in if \<not> listening then
           (\<lparr>reg_returned = Some False, probeIPProtocolGauge = g,
             probeDNSLookupTimeSeconds = t, reg_lookups = lk,
             reg_logged = [Errorf ''Error listening to socket for %s: %s'']\<rparr>, icmpSequence)
         else
           (case getICMPSequence icmpSequence of
              (seq, icmpSequence') \<Rightarrow>
                (let wm = \<lparr>msg_Type = requestType, msg_Code = 0,
                           echo_ID = Getpid env AND 0xffff, echo_Seq = uint seq,
                           echo_Data = ''Prometheus Blackbox Exporter''\<rparr>
                 in case Marshal env wm of
                      None \<Rightarrow>
                        (\<lparr>reg_returned = Some False, probeIPProtocolGauge = g,
                          probeDNSLookupTimeSeconds = t, reg_lookups = lk,
                          reg_logged = [Errorf ''Error marshalling packet for %s: %s'']\<rparr>,
                         icmpSequence')
                    | Some wb \<Rightarrow>
                        if \<not> WriteTo env wb ip then
                          (\<lparr>reg_returned = Some False, probeIPProtocolGauge = g,
                            probeDNSLookupTimeSeconds = t, reg_lookups = lk,
                            reg_logged = [Warnf ''Error writing to socket for %s: %s'']\<rparr>,
                           icmpSequence')
                        else
                          (case Marshal env (wm\<lparr>msg_Type := replyType\<rparr>) of
                             None \<Rightarrow>
                               (\<lparr>reg_returned = Some False, probeIPProtocolGauge = g,
                                 probeDNSLookupTimeSeconds = t, reg_lookups = lk,
                                 reg_logged = [Errorf ''Error marshalling packet for %s: %s'']\<rparr>,
                                icmpSequence')
                           | Some wb' \<Rightarrow>
                               if \<not> SetReadDeadline_ok env then
                                 (\<lparr>reg_returned = Some False, probeIPProtocolGauge = g,
                                   probeDNSLookupTimeSeconds = t, reg_lookups = lk,
                                   reg_logged =
                                     [Errorf ''Error setting socket deadline for %s: %s'']\<rparr>,
                                  icmpSequence')
                               else
                                 (case read_loop_registry (ip_String ip) replyType wb'
                                         (replicate 1500 0) (reads env) of
                                    (l, r) \<Rightarrow>
                                      (\<lparr>reg_returned = r, probeIPProtocolGauge = g,
                                        probeDNSLookupTimeSeconds = t, reg_lookups = lk,
                                        reg_logged = l\<rparr>,
                                       icmpSequence'))))))"

definition probeICMP_registry :: "icmp_env \<Rightarrow> string \<Rightarrow> Module \<Rightarrow> uint16
    \<Rightarrow> registry_result \<times> uint16" where
  "probeICMP_registry env target module icmpSequence =
     (let preferred = icmp_preferred module;
          fallbackProtocol = icmp_fallback module;
          first = icmp_ResolveIPAddr env preferred target;
          second = (first = None \<and> fallbackProtocol \<noteq> []);
          resolved = (if second then icmp_ResolveIPAddr env fallbackProtocol target else first);
          lk = (if second then [(preferred, target), (fallbackProtocol, target)]
                else [(preferred, target)]);
          t = 0 + resolve_time env
      in case resolved of
           None \<Rightarrow>
             (\<lparr>reg_returned = Some False, probeIPProtocolGauge = 0,
               probeDNSLookupTimeSeconds = t, reg_lookups = lk,
               reg_logged = [Warnf ''Error resolving address %s: %s'']\<rparr>, icmpSequence)
         | Some ip \<Rightarrow> probeICMP_registry_echo env ip t lk icmpSequence)"

section \<open>The DNS prober\<close>

text \<open>
  A resource record is used only through \<^verbatim>\<open>rr.String()\<close>, so it is represented by
  that text. The log lines of the DNS prober go to a logger handed in by the caller and
  are not modelled.
\<close>

type_synonym RR = string

text \<open>\<^verbatim>\<open>dns.Msg\<close> as far as the prober reads a response.\<close>

record dns_msg =
  Rcode :: int
  Answer :: "RR list"
  Ns :: "RR list"
  Extra :: "RR list"

subsection \<open>validRRs\<close>

text \<open>
  \<open>m re s\<close> stands for \<^verbatim>\<open>regexp.MatchString(re, s)\<close>: \<open>None\<close> when it returns
  an error (the pattern does not compile), \<open>Some match\<close> otherwise. The two inner loops
  give \<open>False\<close> when they make \<^verbatim>\<open>validRRs\<close> return \<^verbatim>\<open>false\<close> and
  \<open>True\<close> when they run to their end.
\<close>

fun rr_fail_if_matches :: "(string \<Rightarrow> string \<Rightarrow> bool option) \<Rightarrow> RR \<Rightarrow> string list \<Rightarrow> bool" where
  "rr_fail_if_matches m rr [] = True"
| "rr_fail_if_matches m rr (re # res) =
     (case m re rr of
        None \<Rightarrow> False
      | Some match \<Rightarrow> if match then False else rr_fail_if_matches m rr res)"

fun rr_fail_if_not_matches :: "(string \<Rightarrow> string \<Rightarrow> bool option) \<Rightarrow> RR \<Rightarrow> string list \<Rightarrow> bool" where
  "rr_fail_if_not_matches m rr [] = True"
| "rr_fail_if_not_matches m rr (re # res) =
     (case m re rr of
        None \<Rightarrow> False
      | Some match \<Rightarrow> if \<not> match then False else rr_fail_if_not_matches m rr res)"

fun validRRs_loop :: "(string \<Rightarrow> string \<Rightarrow> bool option) \<Rightarrow> DNSRRValidator \<Rightarrow> RR list \<Rightarrow> bool" where
  "validRRs_loop m v [] = True"
| "validRRs_loop m v (rr # rrs) =
     (if \<not> rr_fail_if_matches m rr (RR_FailIfMatchesRegexp v) then False
      else if \<not> rr_fail_if_not_matches m rr (RR_FailIfNotMatchesRegexp v) then False
      else validRRs_loop m v rrs)"

definition validRRs :: "(string \<Rightarrow> string \<Rightarrow> bool option) \<Rightarrow> RR list \<Rightarrow> DNSRRValidator \<Rightarrow> bool" where
  "validRRs m rrs v =
     (if length rrs = 0 \<and> length (RR_FailIfNotMatchesRegexp v) > 0 then False
      else validRRs_loop m v rrs)"

subsection \<open>validRcode\<close>

text \<open>
  \<open>tbl\<close> is the library table \<^verbatim>\<open>dns.StringToRcode\<close>. Indexing a Go map with a key
  it does not hold gives the zero value.
\<close>

definition map_index :: "(string \<rightharpoonup> int) \<Rightarrow> string \<Rightarrow> int" where
  "map_index tbl k = (case tbl k of None \<Rightarrow> 0 | Some v \<Rightarrow> v)"

text \<open>
  The loop that fills \<^verbatim>\<open>validRcodes\<close> from the configured names: \<open>None\<close> when a
  name is not in the table and \<^verbatim>\<open>validRcode\<close> returns \<^verbatim>\<open>false\<close> at once.
\<close>

fun append_rcodes :: "(string \<rightharpoonup> int) \<Rightarrow> string list \<Rightarrow> int list \<Rightarrow> int list option" where
  "append_rcodes tbl [] validRcodes = Some validRcodes"
| "append_rcodes tbl (rcode # valid) validRcodes =
     (case tbl rcode of
        None \<Rightarrow> None
      | Some rc \<Rightarrow> append_rcodes tbl valid (validRcodes @ [rc]))"

fun rcode_listed :: "int \<Rightarrow> int list \<Rightarrow> bool" where
  "rcode_listed rcode [] = False"
| "rcode_listed rcode (rc # rcs) = (if rcode = rc then True else rcode_listed rcode rcs)"

definition validRcode :: "(string \<rightharpoonup> int) \<Rightarrow> int \<Rightarrow> string list option \<Rightarrow> bool" where
  "validRcode tbl rcode valid =
     (case (case valid of
              None \<Rightarrow> Some ([] @ [map_index tbl ''NOERROR''])
            | Some names \<Rightarrow> append_rcodes tbl names []) of
        None \<Rightarrow> False
      | Some validRcodes \<Rightarrow> rcode_listed rcode validRcodes)"

text \<open>
  The entries of \<^verbatim>\<open>dns.StringToRcode\<close> for the response codes of RFC 1035, used
  where a theorem is evaluated on a concrete table.
\<close>

definition rfc1035_rcodes :: "string \<rightharpoonup> int" where
  "rfc1035_rcodes =
     map_of [(''NOERROR'', 0), (''FORMERR'', 1), (''SERVFAIL'', 2), (''NXDOMAIN'', 3),
             (''NOTIMP'', 4), (''REFUSED'', 5)]"

subsection \<open>ProbeDNS\<close>

text \<open>
  The world outside \<^verbatim>\<open>ProbeDNS\<close>:
  \<^item> \<open>dns_SplitHostPort\<close>, \<open>JoinHostPort\<close>: the functions of package \<^verbatim>\<open>net\<close>;
  \<^item> \<open>chooseProtocol\<close>: the resolver of the repository, called with the preferred
    family and the host, \<open>None\<close> on error;
  \<^item> \<open>StringToType\<close>, \<open>StringToRcode\<close>, \<open>Fqdn\<close>: the tables and the function of the
    DNS library;
  \<^item> \<open>Exchange\<close>: \<^verbatim>\<open>client.Exchange(msg, target)\<close> for a client on the given network
    and a question (name, type), \<open>None\<close> on error;
  \<^item> \<open>MatchString\<close>: \<^verbatim>\<open>regexp.MatchString\<close>, \<open>None\<close> on error.
\<close>

record dns_env =
  dns_SplitHostPort :: "string \<Rightarrow> (string \<times> string) option"
  JoinHostPort :: "string \<Rightarrow> string \<Rightarrow> string"
  chooseProtocol :: "string \<Rightarrow> string \<Rightarrow> ip_addr option"
  StringToType :: "string \<rightharpoonup> nat"
  StringToRcode :: "string \<rightharpoonup> int"
  Fqdn :: "string \<Rightarrow> string"
  Exchange :: "string \<Rightarrow> string \<times> nat \<Rightarrow> string \<Rightarrow> dns_msg option"
  MatchString :: "string \<Rightarrow> string \<Rightarrow> bool option"

text \<open>
  What \<^verbatim>\<open>ProbeDNS\<close> returns, and the values that the deferred function puts into
  the three gauges.
\<close>

record dns_result =
  dns_success :: bool
  numAnswer :: nat
  numAuthority :: nat
  numAdditional :: nat

text \<open>Lines 166 to 183: the validation of a response that was received.\<close>

definition ProbeDNS_validate :: "dns_env \<Rightarrow> Module \<Rightarrow> dns_msg \<Rightarrow> dns_result" where
  "ProbeDNS_validate env module response =
     \<lparr>dns_success =
        (if \<not> validRcode (StringToRcode env) (Rcode response) (ValidRcodes (DNS module))
         then False
         else if \<not> validRRs (MatchString env) (Answer response) (ValidateAnswer (DNS module))
         then False
         else if \<not> validRRs (MatchString env) (Ns response) (ValidateAuthority (DNS module))
         then False
         else if \<not> validRRs (MatchString env) (Extra response) (ValidateAdditional (DNS module))
         then False
         else True),
      numAnswer = length (Answer response),
      numAuthority = length (Ns response),
      numAdditional = length (Extra response)\<rparr>"

text \<open>The result of every return before a response is there: all three counts are 0.\<close>

definition dns_failed :: dns_result where
  "dns_failed = \<lparr>dns_success = False, numAnswer = 0, numAuthority = 0, numAdditional = 0\<rparr>"

text \<open>\<^verbatim>\<open>dns.TypeANY\<close> is 255.\<close>

definition ProbeDNS :: "dns_env \<Rightarrow> string \<Rightarrow> Module \<Rightarrow> dns_result" where
  "ProbeDNS env target0 module =
     (let transport = (if TransportProtocol (DNS module) = [] then ''udp''
                       else TransportProtocol (DNS module))
      in if transport = ''udp'' \<or> transport = ''tcp'' then
           (let (targetAddr, port) = (case dns_SplitHostPort env target0 of
                                        None \<Rightarrow> (target0, ''53'')
                                      | Some (h, p) \<Rightarrow> (h, p))
            in case chooseProtocol env (DNS_PreferredIPProtocol (DNS module)) targetAddr of
                 None \<Rightarrow> dns_failed
               | Some ip \<Rightarrow>
                   (let target = JoinHostPort env (ip_String ip) port;
                        dialProtocol = (if \<not> To4_ok ip then transport @ ''6''
                                        else transport @ ''4'')
                    in case (if QueryType (DNS module) \<noteq> []
                             then StringToType env (QueryType (DNS module))
                             else Some 255) of
                         None \<Rightarrow> dns_failed
                       | Some qt \<Rightarrow>
                           (case Exchange env dialProtocol
                                   (Fqdn env (QueryName (DNS module)), qt) target of
                              None \<Rightarrow> dns_failed
                            | Some response \<Rightarrow> ProbeDNS_validate env module response)))
         else dns_failed)"

section \<open>Concrete modules and environments\<close>

text \<open>
  The inputs on which the theorems below are evaluated. The module is the one that an
  empty configuration gives: every field is the zero value of its type.
\<close>

definition default_http :: HTTPProbe where
  "default_http =
     \<lparr>ValidStatusCodes = [], NoFollowRedirects = False, FailIfSSL = False,
      FailIfNotSSL = False, Method = [], Headers = [], FailIfMatchesRegexp = [],
      FailIfNotMatchesRegexp = [], HTTP_Protocol = [], HTTP_PreferredIPProtocol = [],
      Body = []\<rparr>"

definition no_validator :: DNSRRValidator where
  "no_validator = \<lparr>RR_FailIfMatchesRegexp = [], RR_FailIfNotMatchesRegexp = []\<rparr>"

definition default_module :: Module where
  "default_module =
     \<lparr>Timeout = 5000000000,
      HTTP = default_http,
      ICMP = \<lparr>ICMP_Protocol = [], ICMP_PreferredIPProtocol = []\<rparr>,
      DNS = \<lparr>TransportProtocol = [], DNS_PreferredIPProtocol = [], QueryName = ''example.com'',
             QueryType = [], ValidRcodes = None, ValidateAnswer = no_validator,
             ValidateAuthority = no_validator, ValidateAdditional = no_validator\<rparr>\<rparr>"

text \<open>
  A matcher that agrees with Go's regular expressions on the patterns used below: the
  pattern \<^verbatim>\<open>:[\<close> does not compile, and a pattern of letters, digits and blanks only
  matches the texts that contain it.
\<close>

definition literal_match :: "string \<Rightarrow> string \<Rightarrow> bool option" where
  "literal_match re s = (if re = '':['' then None else Some (sublist re s))"

text \<open>
  A host \<^verbatim>\<open>example.com\<close> that has an IPv4 address only, so that the lookup in
  the family \<^verbatim>\<open>ip6\<close> fails, and a server that answers every request with status 204
  over plain HTTP.
\<close>

definition only_ip4 :: "string \<Rightarrow> string \<Rightarrow> ip_addr option" where
  "only_ip4 network host =
     (if network = ''ip4'' \<and> host = ''example.com''
      then Some \<lparr>To4_ok = True, ip_String = ''192.0.2.1''\<rparr> else None)"

text \<open>
  The canonical form of a header key: the first letter and every letter after a hyphen
  in upper case, every other letter in lower case. It agrees with
  \<^verbatim>\<open>textproto.CanonicalMIMEHeaderKey\<close> on keys of letters, digits and hyphens.
\<close>

definition ToLower :: "char \<Rightarrow> char" where
  "ToLower r =
     (let c = (of_char r :: nat) in
      if 65 \<le> c \<and> c \<le> 90 then char_of (c + 32) else r)"

fun canonical_from :: "bool \<Rightarrow> string \<Rightarrow> string" where
  "canonical_from upper [] = []"
| "canonical_from upper (r # s) =
     (if upper then ToTitle r else ToLower r) # canonical_from (r = CHR ''-'') s"

definition canonical_key :: "string \<Rightarrow> string" where
  "canonical_key k = canonical_from True k"

definition no_content :: response where
  "no_content = \<lparr>StatusCode = 204, ContentLength = 0, TLS = None, resp_Body = Some []\<rparr>"

definition plain_http_env :: http_env where
  "plain_http_env =
     \<lparr>url_Parse = (\<lambda>t. if prefix ''http://'' t then Some (drop 7 t) else None),
      http_SplitHostPort = (\<lambda>h. None),
      http_ResolveIPAddr = only_ip4,
      GenerateConfig_ok = True,
      http_NewRequest = (\<lambda>method target.
         Some \<lparr>req_Method = method, req_URL = target, req_Host = drop 7 target,
               req_Header = Map.empty, req_Body = None\<rparr>),
      CanonicalHeaderKey = canonical_key,
      client_Do = (\<lambda>client request. ([], DoResponse no_content False)),
      regexp_Match = literal_match,
      getEarliestCertExpiry = (\<lambda>cs. case cs of [] \<Rightarrow> 0 | c # r \<Rightarrow> fold min r c)\<rparr>"

text \<open>
  The client and the request that \<^verbatim>\<open>probeHTTP\<close> builds in this world for the target
  \<^verbatim>\<open>example.com\<close> and the default module.
\<close>

definition probe_client :: http_client where
  "probe_client =
     \<lparr>client_Timeout = 5000000000, Dial_network = ''tcp4'', DisableKeepAlives = True,
      CheckRedirect = (\<lambda>redirects. redirects > 10)\<rparr>"

definition probe_request :: request where
  "probe_request =
     \<lparr>req_Method = ''GET'', req_URL = ''http://example.com'', req_Host = ''example.com'',
      req_Header = Map.empty, req_Body = None\<rparr>"

text \<open>The default module with one configured header, whose key is \<^verbatim>\<open>hOST\<close>.\<close>

definition hOST_module :: Module where
  "hOST_module =
     default_module\<lparr>HTTP := default_http\<lparr>Headers := [(''hOST'', ''backend.internal'')]\<rparr>\<rparr>"

text \<open>The same host when nothing listens on its port: the request fails with no response.\<close>

definition refused_http_env :: http_env where
  "refused_http_env = plain_http_env\<lparr>client_Do := (\<lambda>client request. ([], DoFailed))\<rparr>"

text \<open>The same world when the name has no address in either family.\<close>

definition unresolved_http_env :: http_env where
  "unresolved_http_env = plain_http_env\<lparr>http_ResolveIPAddr := (\<lambda>network host. None)\<rparr>"

text \<open>
  An ICMP world for the same host. \<open>echo_bytes\<close> lays a message out as type, code, two
  checksum bytes left at 0, identifier and sequence number; the reads give an error, a
  packet of another sender, a packet of other bytes and then the reply.
\<close>

definition echo_bytes :: "icmp_message \<Rightarrow> byte list option" where
  "echo_bytes m =
     Some [case msg_Type m of
             ipv4_ICMPTypeEcho \<Rightarrow> 8 | ipv4_ICMPTypeEchoReply \<Rightarrow> 0
           | ipv6_ICMPTypeEchoRequest \<Rightarrow> 128 | ipv6_ICMPTypeEchoReply \<Rightarrow> 129,
           word_of_int (msg_Code m), 0, 0,
           word_of_int (echo_ID m div 256), word_of_int (echo_ID m),
           word_of_int (echo_Seq m div 256), word_of_int (echo_Seq m)]"

definition ping_env :: icmp_env where
  "ping_env =
     \<lparr>icmp_ResolveIPAddr = only_ip4,
      resolve_time = 1500000,
      ListenPacket = (\<lambda>network address. True),
      Getpid = 4242,
      Marshal = echo_bytes,
      WriteTo = (\<lambda>wb ip. True),
      SetReadDeadline_ok = True,
      reads = [ReadError,
               ReadPacket [0, 0, 0, 0, 16, 146, 0, 1] ''198.51.100.7'',
               ReadPacket [0, 0, 0, 0, 16, 146, 0, 9] ''192.0.2.1'',
               ReadPacket [0, 0, 0, 0, 16, 146, 0, 1] ''192.0.2.1'']\<rparr>"

definition unresolved_ping_env :: icmp_env where
  "unresolved_ping_env = ping_env\<lparr>icmp_ResolveIPAddr := (\<lambda>network host. None)\<rparr>"

text \<open>
  A DNS world: the target is the address of a name server, which answers every query with
  the response code NXDOMAIN (3) and one record in the authority section.
\<close>

definition nxdomain :: dns_msg where
  "nxdomain =
     \<lparr>Rcode = 3, Answer = [],
      Ns = [''com. 900 IN SOA a.gtld-servers.net. nstld.verisign-grs.com.''], Extra = []\<rparr>"

definition nxdomain_env :: dns_env where
  "nxdomain_env =
     \<lparr>dns_SplitHostPort = (\<lambda>t. None),
      JoinHostPort = (\<lambda>h p. h @ '':'' @ p),
      chooseProtocol = (\<lambda>preferred host. Some \<lparr>To4_ok = True, ip_String = host\<rparr>),
      StringToType = map_of [(''A'', 1), (''SOA'', 6), (''ANY'', 255)],
      StringToRcode = rfc1035_rcodes,
      Fqdn = (\<lambda>s. s @ ''.''),
      Exchange = (\<lambda>network question target. Some nxdomain),
      MatchString = literal_match\<rparr>"

text \<open>The default module with the response code NXDOMAIN declared valid.\<close>

definition expect_nxdomain :: Module where
  "expect_nxdomain =
     default_module\<lparr>DNS := (DNS default_module)\<lparr>ValidRcodes := Some [''NXDOMAIN'']\<rparr>\<rparr>"

section \<open>Properties of the sequence counter\<close>

lemma after_calls_add: "after_calls n s = s + word_of_nat n"
  by (induction n arbitrary: s) (simp_all add: getICMPSequence_def Let_def)

lemma nth_sequence_eq: "0 < k \<Longrightarrow> nth_sequence k = word_of_nat k"
  by (cases k) (simp_all add: nth_sequence_def after_calls_add getICMPSequence_def Let_def)

lemma unat_nth_sequence: "0 < k \<Longrightarrow> unat (nth_sequence k) = k mod 65536"
  by (simp add: nth_sequence_eq unat_of_nat)

lemma nth_sequence_distinct:
  assumes "0 < i" and "i < j" and "j - i < 65536"
  shows "nth_sequence i \<noteq> nth_sequence j"
proof
  assume eq: "nth_sequence i = nth_sequence j"
  from assms have "0 < j" by simp
  with eq assms have "i mod 65536 = j mod 65536"
    by (metis unat_nth_sequence)
  then have "(j - i) mod 65536 = 0" using assms
    by (metis mod_eq_dvd_iff_nat less_imp_le_nat dvd_imp_mod_0)
  with assms show False by simp
qed

text \<open>
  C8, as stated, fails: the returned numbers are neither increasing nor unique over any
  number of calls. The counter is a \<^verbatim>\<open>uint16\<close>: call 65535 of a process returns 65535,
  call 65536 returns 0, and call 65537 returns 1, the number that the first call returned.
\<close>

theorem getICMPSequence_wraps:
  "nth_sequence 65535 = 65535 \<and> nth_sequence 65536 = 0 \<and> nth_sequence 65537 = nth_sequence 1"
  by (simp add: nth_sequence_eq)

text \<open>
  C8, amended: every call of \<^verbatim>\<open>getICMPSequence\<close> adds 1 to the counter modulo
  \<open>2^16\<close>, stores the sum and returns it, and nothing else writes the counter; so call
  number \<open>k\<close> of a process returns \<open>k mod 65536\<close>, and the numbers returned by two
  calls less than 65536 calls apart differ.
\<close>

theorem getICMPSequence_window:
  "getICMPSequence s = (s + 1, s + 1)
   \<and> (0 < k \<longrightarrow> unat (nth_sequence k) = k mod 65536)
   \<and> (0 < i \<and> i < j \<and> j - i < 65536 \<longrightarrow> nth_sequence i \<noteq> nth_sequence j)"
  using unat_nth_sequence [of k] nth_sequence_distinct [of i j]
  by (simp add: getICMPSequence_def Let_def)

theorem getICMPSequence_window_witness:
  "(0::nat) < 70000 \<and> unat (nth_sequence 70000) = 4464
   \<and> (0::nat) < 1 \<and> (1::nat) < 65536 \<and> (65536::nat) - 1 < 65536
   \<and> nth_sequence 1 \<noteq> nth_sequence 65536"
  using getICMPSequence_window [of 0 70000 1 65536] by simp

section \<open>Properties of the HTTP prober\<close>

subsection \<open>The stages of probeHTTP\<close>

lemma status_listed_iff: "status_listed sc codes \<longleftrightarrow> sc \<in> set codes"
  by (induction codes) auto

lemma status_check_iff:
  "status_check codes sc \<longleftrightarrow> (if codes \<noteq> [] then sc \<in> set codes else 200 \<le> sc \<and> sc < 300)"
  by (simp add: status_check_def status_listed_iff)

lemma sent_probeHTTP_do: "sent (probeHTTP_do env config client w lk request) = Some (client, request)"
  by (simp add: probeHTTP_do_def Let_def split: prod.splits)

lemma lookups_probeHTTP_do: "lookups (probeHTTP_do env config client w lk request) = lk"
  by (simp add: probeHTTP_do_def Let_def split: prod.splits)

lemma probeHTTP_request_sent:
  assumes "sent (probeHTTP_request env target module config dialProtocol lk) = Some (client, request)"
  shows "probeHTTP_request env target module config dialProtocol lk =
           probeHTTP_do env config client
             [(''probe_ip_protocol'', if dialProtocol = ''tcp6'' then 6 else 4)] lk request
         \<and> Dial_network client = dialProtocol"
proof (cases "GenerateConfig_ok env")
  case False
  with assms show ?thesis by (simp add: probeHTTP_request_def)
next
  case True
  show ?thesis
  proof (cases "http_NewRequest env (if Method config = [] then ''GET'' else Method config) target")
    case None
    with True assms show ?thesis by (simp add: probeHTTP_request_def Let_def)
  next
    case (Some request0)
    with True assms show ?thesis
      by (auto simp: probeHTTP_request_def Let_def sent_probeHTTP_do)
  qed
qed

lemma probeHTTP_request_not_sent:
  assumes "sent (probeHTTP_request env target module config dialProtocol lk) = None"
  shows "\<not> success (probeHTTP_request env target module config dialProtocol lk)
         \<and> written (probeHTTP_request env target module config dialProtocol lk) =
             [(''probe_ip_protocol'', if dialProtocol = ''tcp6'' then 6 else 4)]"
proof (cases "GenerateConfig_ok env")
  case False
  then show ?thesis by (simp add: probeHTTP_request_def)
next
  case True
  show ?thesis
  proof (cases "http_NewRequest env (if Method config = [] then ''GET'' else Method config) target")
    case None
    with True show ?thesis by (simp add: probeHTTP_request_def Let_def)
  next
    case (Some request0)
    with True assms show ?thesis
      by (simp add: probeHTTP_request_def Let_def sent_probeHTTP_do)
  qed
qed

lemma lookups_probeHTTP_request:
  "lookups (probeHTTP_request env target module config dialProtocol lk) = lk"
  by (simp add: probeHTTP_request_def Let_def lookups_probeHTTP_do split: option.splits)


lemma probeHTTP_cases [case_names parse resolve request]:
  obtains "probeHTTP env target module =
        \<lparr>success = False, probe_error = ''Could not parse target URL'', written = [],
         lookups = [], logged = [], sent = None\<rparr>"
  | lk where "probeHTTP env target module =
        \<lparr>success = False, probe_error = ''Error resolving address'', written = [],
         lookups = lk, logged = [], sent = None\<rparr>"
  | dialProtocol lk where "probeHTTP env target module =
        probeHTTP_request env (http_target target) module (HTTP module) dialProtocol lk"
proof (cases "http_protocol module = ''tcp''")
  case False
  then show ?thesis using that(3) by (simp add: probeHTTP_def Let_def)
next
  case tcp: True
  show ?thesis
  proof (cases "url_Parse env (http_target target)")
    case None
    with tcp show ?thesis using that(1) by (simp add: probeHTTP_def Let_def)
  next
    case (Some url_Host)
    define targetHost where "targetHost = (case http_SplitHostPort env url_Host of
                                     None \<Rightarrow> url_Host | Some (h, p) \<Rightarrow> h)"
    show ?thesis
    proof (cases "http_ResolveIPAddr env (http_preferred module) targetHost")
      case first: (Some ip)
      with tcp Some show ?thesis using that(3)
        by (simp add: probeHTTP_def Let_def targetHost_def)
    next
      case first: None
      show ?thesis
      proof (cases "http_ResolveIPAddr env (http_fallback module) targetHost")
        case None
        with tcp Some first show ?thesis using that(2)
          by (simp add: probeHTTP_def Let_def targetHost_def)
      next
        case (Some ip)
        with tcp \<open>url_Parse env (http_target target) = Some url_Host\<close> first
        show ?thesis using that(3)
          by (simp add: probeHTTP_def Let_def targetHost_def)
      qed
    qed
  qed
qed

lemma probeHTTP_sent:
  assumes "sent (probeHTTP env target module) = Some (client, request)"
  shows "\<exists>lk. probeHTTP env target module =
           probeHTTP_do env (HTTP module) client
             [(''probe_ip_protocol'', if Dial_network client = ''tcp6'' then 6 else 4)] lk request"
proof (cases env target module rule: probeHTTP_cases)
  case parse
  with assms show ?thesis by simp
next
  case (resolve lk)
  with assms show ?thesis by simp
next
  case (request dialProtocol lk)
  with assms probeHTTP_request_sent [of env "http_target target" module "HTTP module" dialProtocol lk client request]
  show ?thesis by auto
qed

lemma probeHTTP_not_sent:
  assumes "sent (probeHTTP env target module) = None"
  shows "\<not> success (probeHTTP env target module)
         \<and> (written (probeHTTP env target module) = []
            \<or> written (probeHTTP env target module) = [(''probe_ip_protocol'', 6)]
            \<or> written (probeHTTP env target module) = [(''probe_ip_protocol'', 4)])"
proof (cases env target module rule: probeHTTP_cases)
  case parse
  then show ?thesis by simp
next
  case (resolve lk)
  then show ?thesis by simp
next
  case (request dialProtocol lk)
  with assms probeHTTP_request_not_sent [of env "http_target target" module "HTTP module" dialProtocol lk]
  show ?thesis by auto
qed


lemma success_probeHTTP_do:
  assumes "snd (client_Do env client request) = DoResponse resp e"
  shows "success (probeHTTP_do env config client w lk request) =
     (status_check (ValidStatusCodes config) (StatusCode resp)
      \<and> (FailIfMatchesRegexp config \<noteq> [] \<or> FailIfNotMatchesRegexp config \<noteq> []
           \<longrightarrow> fst (matchRegularExpressions env (resp_Body resp) config))
      \<and> \<not> (TLS resp \<noteq> None \<and> FailIfSSL config)
      \<and> \<not> (TLS resp = None \<and> FailIfNotSSL config))"
proof -
  obtain vias where do: "client_Do env client request = (vias, DoResponse resp e)"
    using assms by (cases "client_Do env client request") simp
  show ?thesis
    by (cases "TLS resp")
       (auto simp: probeHTTP_do_def do Let_def split: prod.splits)
qed

lemma failed_probeHTTP_do:
  assumes "client_Do env client request = (vias, DoFailed)"
  shows "probeHTTP_do env config client w lk request =
     \<lparr>success = False,
      probe_error = (if FailIfNotSSL config then ''SSL failed'' else []),
      written = w @ [(''probe_http_status_code'', 0), (''probe_http_content_length'', 0),
                     (''probe_http_redirects'', int (if vias = [] then 0 else last vias)),
                     (''probe_http_ssl'', 0)],
      lookups = lk, logged = [Warnf ''Error for HTTP request to %s: %s''],
      sent = Some (client, request)\<rparr>"
  by (simp add: probeHTTP_do_def assms Let_def empty_response_def)

lemma names_probeHTTP_do:
  "map fst (written (probeHTTP_do env config client w lk request)) =
     map fst w
     @ (case snd (client_Do env client request) of
          DoFailed \<Rightarrow> []
        | DoResponse resp e \<Rightarrow>
            if TLS resp \<noteq> None then [''probe_ssl_earliest_cert_expiry''] else [])
     @ [''probe_http_status_code'', ''probe_http_content_length'', ''probe_http_redirects'',
        ''probe_http_ssl'']"
proof (cases "client_Do env client request")
  case (Pair vias res)
  then show ?thesis
    by (cases res)
       (auto simp: probeHTTP_do_def Let_def empty_response_def split: prod.splits option.splits)
qed

subsection \<open>The status check and the success of the probe\<close>

text \<open>
  C1: when the request yields a response, the status check passes iff the status code is an
  element of \<open>ValidStatusCodes\<close> when that list is not empty, and otherwise iff the code
  is at least 200 and less than 300; with no codes configured, 200, 204 and 299 pass and
  300 fails. The success of the probe is the result of the status check unless the body
  regexps (evaluated only when the status check passed and some are configured) or the TLS
  checks (\<open>FailIfSSL\<close> on a TLS response, \<open>FailIfNotSSL\<close> on a plain one) force a
  failure.
\<close>

theorem probeHTTP_status_check:
  "(status_check codes sc \<longleftrightarrow> (if codes \<noteq> [] then sc \<in> set codes else 200 \<le> sc \<and> sc < 300))
   \<and> status_check [] 200 \<and> status_check [] 204 \<and> status_check [] 299 \<and> \<not> status_check [] 300
   \<and> (sent (probeHTTP env target module) = Some (client, request)
        \<and> snd (client_Do env client request) = DoResponse resp e
      \<longrightarrow> success (probeHTTP env target module) =
            (status_check (ValidStatusCodes (HTTP module)) (StatusCode resp)
             \<and> (FailIfMatchesRegexp (HTTP module) \<noteq> [] \<or> FailIfNotMatchesRegexp (HTTP module) \<noteq> []
                  \<longrightarrow> fst (matchRegularExpressions env (resp_Body resp) (HTTP module)))
             \<and> \<not> (TLS resp \<noteq> None \<and> FailIfSSL (HTTP module))
             \<and> \<not> (TLS resp = None \<and> FailIfNotSSL (HTTP module))))"
proof -
  have "success (probeHTTP env target module) =
            (status_check (ValidStatusCodes (HTTP module)) (StatusCode resp)
             \<and> (FailIfMatchesRegexp (HTTP module) \<noteq> [] \<or> FailIfNotMatchesRegexp (HTTP module) \<noteq> []
                  \<longrightarrow> fst (matchRegularExpressions env (resp_Body resp) (HTTP module)))
             \<and> \<not> (TLS resp \<noteq> None \<and> FailIfSSL (HTTP module))
             \<and> \<not> (TLS resp = None \<and> FailIfNotSSL (HTTP module)))"
    if s: "sent (probeHTTP env target module) = Some (client, request)"
      and d: "snd (client_Do env client request) = DoResponse resp e"
  proof -
    from probeHTTP_sent [OF s] obtain lk where
      "probeHTTP env target module = probeHTTP_do env (HTTP module) client
         [(''probe_ip_protocol'', if Dial_network client = ''tcp6'' then 6 else 4)] lk request"
      by blast
    then show ?thesis by (simp only: success_probeHTTP_do [OF d])
  qed
  moreover have "status_check [] 200 \<and> status_check [] 204 \<and> status_check [] 299 \<and> \<not> status_check [] 300"
    by (simp add: status_check_def)
  ultimately show ?thesis using status_check_iff [of codes sc] by blast
qed

text \<open>The probe of \<^verbatim>\<open>example.com\<close> with the default module, evaluated.\<close>

lemma eval_plain:
  "probeHTTP plain_http_env ''example.com'' default_module =
     \<lparr>success = True, probe_error = [],
      written = [(''probe_ip_protocol'', 4), (''probe_http_status_code'', 204),
                 (''probe_http_content_length'', 0), (''probe_http_redirects'', 0),
                 (''probe_http_ssl'', 0)],
      lookups = [(''ip6'', ''example.com''), (''ip4'', ''example.com'')],
      logged = [], sent = Some (probe_client, probe_request)\<rparr>"
  by (simp add: probeHTTP_def probeHTTP_request_def probeHTTP_do_def http_protocol_def
      http_preferred_def http_fallback_def http_target_def plain_http_env_def
      default_module_def default_http_def only_ip4_def no_content_def probe_client_def
      probe_request_def status_check_def Let_def)

theorem probeHTTP_status_check_witness:
  "sent (probeHTTP plain_http_env ''example.com'' default_module) = Some (probe_client, probe_request)
   \<and> snd (client_Do plain_http_env probe_client probe_request) = DoResponse no_content False
   \<and> StatusCode no_content = 204
   \<and> success (probeHTTP plain_http_env ''example.com'' default_module)"
proof -
  have s: "sent (probeHTTP plain_http_env ''example.com'' default_module)
             = Some (probe_client, probe_request)"
    by (simp add: eval_plain)
  have d: "snd (client_Do plain_http_env probe_client probe_request) = DoResponse no_content False"
    by (simp add: plain_http_env_def)
  have c: "StatusCode no_content = 204" "TLS no_content = None"
    by (simp_all add: no_content_def)
  have m: "ValidStatusCodes (HTTP default_module) = []"
    "FailIfMatchesRegexp (HTTP default_module) = []"
    "FailIfNotMatchesRegexp (HTTP default_module) = []"
    "\<not> FailIfNotSSL (HTTP default_module)"
    by (simp_all add: default_module_def default_http_def)
  from probeHTTP_status_check [of "[]" 204 plain_http_env "''example.com''" default_module
      probe_client probe_request no_content False] s d
  have "success (probeHTTP plain_http_env ''example.com'' default_module)"
    by (simp add: c m)
  with s d c show ?thesis by simp
qed

subsection \<open>Requests without a response, and the metrics written\<close>

lemma eval_refused:
  "probeHTTP refused_http_env ''example.com'' (default_module\<lparr>HTTP := default_http\<lparr>FailIfNotSSL := b\<rparr>\<rparr>) =
     \<lparr>success = False, probe_error = (if b then ''SSL failed'' else []),
      written = [(''probe_ip_protocol'', 4), (''probe_http_status_code'', 0),
                 (''probe_http_content_length'', 0), (''probe_http_redirects'', 0),
                 (''probe_http_ssl'', 0)],
      lookups = [(''ip6'', ''example.com''), (''ip4'', ''example.com'')],
      logged = [Warnf ''Error for HTTP request to %s: %s''],
      sent = Some (probe_client, probe_request)\<rparr>"
  by (simp add: probeHTTP_def probeHTTP_request_def probeHTTP_do_def http_protocol_def
      http_preferred_def http_fallback_def http_target_def plain_http_env_def refused_http_env_def
      default_module_def default_http_def only_ip4_def empty_response_def probe_client_def
      probe_request_def Let_def)

lemma eval_unresolved:
  "probeHTTP unresolved_http_env ''example.com'' default_module =
     \<lparr>success = False, probe_error = ''Error resolving address'', written = [],
      lookups = [(''ip6'', ''example.com''), (''ip4'', ''example.com'')],
      logged = [], sent = None\<rparr>"
  by (simp add: probeHTTP_def http_protocol_def
      http_preferred_def http_fallback_def http_target_def plain_http_env_def unresolved_http_env_def
      default_module_def default_http_def Let_def)

text \<open>
  C5, as stated, fails: when the request fails with no response, the diagnostic that
  \<^verbatim>\<open>probeHTTP\<close> returns is the empty string, not \<^verbatim>\<open>request error\<close>, and the TLS
  check still runs, on an empty response: with \<open>FailIfNotSSL\<close> the diagnostic is
  \<^verbatim>\<open>SSL failed\<close>.
\<close>

theorem probeHTTP_no_response_diagnostic:
  "client_Do refused_http_env probe_client probe_request = ([], DoFailed)
   \<and> sent (probeHTTP refused_http_env ''example.com'' default_module)
       = Some (probe_client, probe_request)
   \<and> probe_error (probeHTTP refused_http_env ''example.com'' default_module) = []
   \<and> probe_error (probeHTTP refused_http_env ''example.com''
                   (default_module\<lparr>HTTP := default_http\<lparr>FailIfNotSSL := True\<rparr>\<rparr>))
       = ''SSL failed''"
proof -
  have "default_module\<lparr>HTTP := default_http\<lparr>FailIfNotSSL := False\<rparr>\<rparr> = default_module"
    by (simp add: default_module_def default_http_def)
  with eval_refused [of False] eval_refused [of True] show ?thesis
    by (simp add: refused_http_env_def)
qed

text \<open>
  C5, amended: when \<^verbatim>\<open>client.Do\<close> returns an error and a nil response,
  \<^verbatim>\<open>probeHTTP\<close> logs a warning, evaluates neither the status code nor the body
  regexps and returns \<^verbatim>\<open>success = false\<close>; the diagnostic is empty, or
  \<^verbatim>\<open>SSL failed\<close> when \<open>FailIfNotSSL\<close> is set, since the TLS check is evaluated on
  an empty response; the metrics are written with status code 0, content length 0 and
  \<^verbatim>\<open>probe_http_ssl 0\<close>.
\<close>

theorem probeHTTP_no_response:
  "sent (probeHTTP env target module) = Some (client, request)
   \<and> client_Do env client request = (vias, DoFailed)
   \<longrightarrow> \<not> success (probeHTTP env target module)
       \<and> probe_error (probeHTTP env target module)
           = (if FailIfNotSSL (HTTP module) then ''SSL failed'' else [])
       \<and> logged (probeHTTP env target module) = [Warnf ''Error for HTTP request to %s: %s'']
       \<and> written (probeHTTP env target module)
           = [(''probe_ip_protocol'', if Dial_network client = ''tcp6'' then 6 else 4),
              (''probe_http_status_code'', 0), (''probe_http_content_length'', 0),
              (''probe_http_redirects'', int (if vias = [] then 0 else last vias)),
              (''probe_http_ssl'', 0)]"
proof (intro impI, elim conjE)
  assume s: "sent (probeHTTP env target module) = Some (client, request)"
    and d: "client_Do env client request = (vias, DoFailed)"
  from probeHTTP_sent [OF s] obtain lk where
    "probeHTTP env target module = probeHTTP_do env (HTTP module) client
       [(''probe_ip_protocol'', if Dial_network client = ''tcp6'' then 6 else 4)] lk request"
    by blast
  then show "\<not> success (probeHTTP env target module)
       \<and> probe_error (probeHTTP env target module)
           = (if FailIfNotSSL (HTTP module) then ''SSL failed'' else [])
       \<and> logged (probeHTTP env target module) = [Warnf ''Error for HTTP request to %s: %s'']
       \<and> written (probeHTTP env target module)
           = [(''probe_ip_protocol'', if Dial_network client = ''tcp6'' then 6 else 4),
              (''probe_http_status_code'', 0), (''probe_http_content_length'', 0),
              (''probe_http_redirects'', int (if vias = [] then 0 else last vias)),
              (''probe_http_ssl'', 0)]"
    by (simp add: failed_probeHTTP_do [OF d])
qed

theorem probeHTTP_no_response_witness:
  "sent (probeHTTP refused_http_env ''example.com'' default_module)
     = Some (probe_client, probe_request)
   \<and> client_Do refused_http_env probe_client probe_request = ([], DoFailed)
   \<and> \<not> success (probeHTTP refused_http_env ''example.com'' default_module)
   \<and> probe_error (probeHTTP refused_http_env ''example.com'' default_module) = []
   \<and> written (probeHTTP refused_http_env ''example.com'' default_module)
       = [(''probe_ip_protocol'', 4), (''probe_http_status_code'', 0),
          (''probe_http_content_length'', 0), (''probe_http_redirects'', 0),
          (''probe_http_ssl'', 0)]"
proof -
  have m: "default_module\<lparr>HTTP := default_http\<lparr>FailIfNotSSL := False\<rparr>\<rparr> = default_module"
    by (simp add: default_module_def default_http_def)
  have s: "sent (probeHTTP refused_http_env ''example.com'' default_module)
             = Some (probe_client, probe_request)"
    using eval_refused [of False] by (simp add: m)
  have d: "client_Do refused_http_env probe_client probe_request = ([], DoFailed)"
    by (simp add: refused_http_env_def)
  have c: "\<not> FailIfNotSSL (HTTP default_module)" "Dial_network probe_client = ''tcp4''"
    by (simp_all add: default_module_def default_http_def probe_client_def)
  from probeHTTP_no_response [of refused_http_env "''example.com''" default_module
      probe_client probe_request "[]"] s d c
  show ?thesis by simp
qed

text \<open>
  C9, as stated, fails: a probe whose target resolves in neither family returns before it
  writes anything, so none of the side-channel outputs is emitted.
\<close>

theorem probeHTTP_unresolved_writes_nothing:
  "probe_error (probeHTTP unresolved_http_env ''example.com'' default_module)
     = ''Error resolving address''
   \<and> written (probeHTTP unresolved_http_env ''example.com'' default_module) = []"
  by (simp add: eval_unresolved)

text \<open>
  C9, amended: every call of \<^verbatim>\<open>probeHTTP\<close> that gets as far as executing the request
  writes \<^verbatim>\<open>probe_ip_protocol\<close>, then \<^verbatim>\<open>probe_ssl_earliest_cert_expiry\<close> exactly
  when the response has TLS, then \<^verbatim>\<open>probe_http_status_code\<close>,
  \<^verbatim>\<open>probe_http_content_length\<close>, \<^verbatim>\<open>probe_http_redirects\<close> and
  \<^verbatim>\<open>probe_http_ssl\<close>, whether the probe succeeds or not. A call that returns before the
  request (target URL not parsed, address not resolved, TLS configuration or request not
  built) fails and has written nothing, or \<^verbatim>\<open>probe_ip_protocol\<close> only.
\<close>

theorem probeHTTP_written:
  "(sent (probeHTTP env target module) = Some (client, request)
      \<longrightarrow> map fst (written (probeHTTP env target module)) =
            ''probe_ip_protocol''
            # (case snd (client_Do env client request) of
                 DoFailed \<Rightarrow> []
               | DoResponse resp e \<Rightarrow>
                   if TLS resp \<noteq> None then [''probe_ssl_earliest_cert_expiry''] else [])
            @ [''probe_http_status_code'', ''probe_http_content_length'',
               ''probe_http_redirects'', ''probe_http_ssl''])
   \<and> (sent (probeHTTP env target module) = None
      \<longrightarrow> \<not> success (probeHTTP env target module)
          \<and> (written (probeHTTP env target module) = []
             \<or> written (probeHTTP env target module) = [(''probe_ip_protocol'', 6)]
             \<or> written (probeHTTP env target module) = [(''probe_ip_protocol'', 4)]))"
proof (intro conjI impI)
  assume s: "sent (probeHTTP env target module) = Some (client, request)"
  from probeHTTP_sent [OF s] obtain lk where
    "probeHTTP env target module = probeHTTP_do env (HTTP module) client
       [(''probe_ip_protocol'', if Dial_network client = ''tcp6'' then 6 else 4)] lk request"
    by blast
  then show "map fst (written (probeHTTP env target module)) =
            ''probe_ip_protocol''
            # (case snd (client_Do env client request) of
                 DoFailed \<Rightarrow> []
               | DoResponse resp e \<Rightarrow>
                   if TLS resp \<noteq> None then [''probe_ssl_earliest_cert_expiry''] else [])
            @ [''probe_http_status_code'', ''probe_http_content_length'',
               ''probe_http_redirects'', ''probe_http_ssl'']"
    by (simp add: names_probeHTTP_do)
next
  assume n: "sent (probeHTTP env target module) = None"
  from probeHTTP_not_sent [OF n] show "\<not> success (probeHTTP env target module)"
    by simp
  from probeHTTP_not_sent [OF n]
  show "written (probeHTTP env target module) = []
        \<or> written (probeHTTP env target module) = [(''probe_ip_protocol'', 6)]
        \<or> written (probeHTTP env target module) = [(''probe_ip_protocol'', 4)]"
    by simp
qed

theorem probeHTTP_written_witness:
  "sent (probeHTTP plain_http_env ''example.com'' default_module)
     = Some (probe_client, probe_request)
   \<and> map fst (written (probeHTTP plain_http_env ''example.com'' default_module))
       = [''probe_ip_protocol'', ''probe_http_status_code'', ''probe_http_content_length'',
          ''probe_http_redirects'', ''probe_http_ssl'']
   \<and> sent (probeHTTP unresolved_http_env ''example.com'' default_module) = None
   \<and> \<not> success (probeHTTP unresolved_http_env ''example.com'' default_module)"
proof -
  have s: "sent (probeHTTP plain_http_env ''example.com'' default_module)
             = Some (probe_client, probe_request)"
    by (simp add: eval_plain)
  have d: "snd (client_Do plain_http_env probe_client probe_request) = DoResponse no_content False"
    by (simp add: plain_http_env_def)
  have c: "TLS no_content = None"
    by (simp add: no_content_def)
  have n: "sent (probeHTTP unresolved_http_env ''example.com'' default_module) = None"
    by (simp add: eval_unresolved)
  from probeHTTP_written [of plain_http_env "''example.com''" default_module
      probe_client probe_request] s d c
  have 1: "map fst (written (probeHTTP plain_http_env ''example.com'' default_module))
       = [''probe_ip_protocol'', ''probe_http_status_code'', ''probe_http_content_length'',
          ''probe_http_redirects'', ''probe_http_ssl'']"
    by simp
  from probeHTTP_written [of unresolved_http_env "''example.com''" default_module] n
  have 2: "\<not> success (probeHTTP unresolved_http_env ''example.com'' default_module)"
    by simp
  from s 1 n 2 show ?thesis by simp
qed

section \<open>The Host header\<close>

lemma length_Title_from: "length (Title_from prev s) = length s"
  by (induction s arbitrary: prev) simp_all

lemma ToTitle_H: "ToTitle a = CHR ''H'' \<Longrightarrow> a = CHR ''h'' \<or> a = CHR ''H''"
proof (cases "97 \<le> (of_char a :: nat) \<and> (of_char a :: nat) \<le> 122")
  case False
  assume "ToTitle a = CHR ''H''"
  with False show ?thesis by (auto simp: ToTitle_def Let_def)
next
  case True
  assume "ToTitle a = CHR ''H''"
  with True have "char_of ((of_char a :: nat) - 32) = CHR ''H''"
    by (simp add: ToTitle_def Let_def)
  then have "(of_char (char_of ((of_char a :: nat) - 32)) :: nat) = of_char (CHR ''H'')"
    by simp
  then have "((of_char a :: nat) - 32) mod 256 = 72"
    by (simp add: of_char_of)
  moreover from True have "(of_char a :: nat) - 32 < 256"
    by arith
  then have "((of_char a :: nat) - 32) mod 256 = of_char a - 32"
    by (rule mod_less)
  ultimately have "(of_char a :: nat) = 104"
    using True by arith
  then have "char_of (of_char a :: nat) = char_of (104 :: nat)" by simp
  then have "a = CHR ''h''" by (simp only: char_of_char) code_simp
  then show ?thesis by simp
qed

lemma sep_blank: "isSeparator (CHR '' '')"
  by code_simp

lemma sep_h:
  "\<not> isSeparator (CHR ''h'')" "\<not> isSeparator (CHR ''H'')"
  "\<not> isSeparator (CHR ''o'')" "\<not> isSeparator (CHR ''s'')"
  by code_simp+

lemma Title_Host_iff: "strings_Title key = ''Host'' \<longleftrightarrow> key = ''Host'' \<or> key = ''host''"
proof
  assume "key = ''Host'' \<or> key = ''host''"
  moreover have "strings_Title ''Host'' = ''Host''" by code_simp
  moreover have "strings_Title ''host'' = ''Host''" by code_simp
  ultimately show "strings_Title key = ''Host''" by auto
next
  assume t: "strings_Title key = ''Host''"
  then have "length key = 4"
    using length_Title_from [of "CHR '' ''" key] by (simp add: strings_Title_def)
  then obtain a b c d where key: "key = [a, b, c, d]"
    by (auto simp: length_Suc_conv numeral_eq_Suc)
  from t key have a: "ToTitle a = CHR ''H''"
    by (simp add: strings_Title_def sep_blank)
  then have a': "a = CHR ''h'' \<or> a = CHR ''H''" by (rule ToTitle_H)
  then have na: "\<not> isSeparator a" using sep_h by auto
  from t key na have b: "b = CHR ''o''"
    by (simp add: strings_Title_def sep_blank)
  from t key na b have c: "c = CHR ''s''"
    by (simp add: strings_Title_def sep_blank sep_h)
  from t key na b c have d: "d = CHR ''t''"
    by (simp add: strings_Title_def sep_blank sep_h)
  from a' b c d key show "key = ''Host'' \<or> key = ''host''" by auto
qed

text \<open>
  C6: the claim says that a header whose key equals \<^verbatim>\<open>Host\<close> in any casing sets the
  authority of the request. The code compares \<^verbatim>\<open>strings.Title(key)\<close> with
  \<^verbatim>\<open>Host\<close>, and \<^verbatim>\<open>strings.Title\<close> changes the first letter of a word only: the
  comparison holds for the keys \<^verbatim>\<open>Host\<close> and \<^verbatim>\<open>host\<close> and for no other key. For
  the key \<^verbatim>\<open>hOST\<close> the title is \<^verbatim>\<open>HOST\<close>, the value goes into the header and the
  authority of the request stays as it was: the probe of \<^verbatim>\<open>example.com\<close> with the
  header \<^verbatim>\<open>hOST: backend.internal\<close> sends a request whose authority is
  \<^verbatim>\<open>example.com\<close>.
\<close>

theorem set_headers_hOST:
  "(strings_Title key = ''Host'' \<longleftrightarrow> key = ''Host'' \<or> key = ''host'')
   \<and> set_headers canon [(''host'', v)] request = request\<lparr>req_Host := v\<rparr>
   \<and> strings_Title ''hOST'' = ''HOST''
   \<and> set_headers canon [(''hOST'', v)] request
       = request\<lparr>req_Header := (req_Header request)(canon ''hOST'' \<mapsto> [v])\<rparr>
   \<and> req_Host (set_headers canon [(''hOST'', v)] request) = req_Host request
   \<and> sent (probeHTTP plain_http_env ''example.com'' hOST_module)
       = Some (probe_client,
               probe_request\<lparr>req_Header := [''Host'' \<mapsto> [''backend.internal'']]\<rparr>)
   \<and> req_Host probe_request = ''example.com''"
proof -
  have 1: "strings_Title ''host'' = ''Host''" by code_simp
  have 2: "strings_Title ''hOST'' = ''HOST''" by code_simp
  have 3: "canonical_key ''hOST'' = ''Host''" by code_simp
  have 4: "sent (probeHTTP plain_http_env ''example.com'' hOST_module)
       = Some (probe_client,
               probe_request\<lparr>req_Header := [''Host'' \<mapsto> [''backend.internal'']]\<rparr>)"
    by (simp add: probeHTTP_def probeHTTP_request_def sent_probeHTTP_do http_protocol_def
        http_preferred_def http_fallback_def http_target_def plain_http_env_def
        hOST_module_def default_module_def default_http_def only_ip4_def probe_client_def
        probe_request_def Let_def 2 3)
  have 5: "req_Host probe_request = ''example.com''"
    by (simp add: probe_request_def)
  show ?thesis using Title_Host_iff [of key] by (simp add: 1 2 4 5)
qed

section \<open>Properties of the ICMP probers\<close>

subsection \<open>The read loop\<close>

lemma update_append_prefix:
  "\<exists>ys'. length ys' = length ys \<and> (xs @ ys)[i := v] = xs[i := v] @ ys'"
  by (cases "i < length xs") (auto simp: list_update_append list_update_beyond)

lemma compared_bytes:
  assumes "n \<le> length data" and "n \<le> length rb"
  shows "take n ((take n data @ drop n rb)[i := v, j := u]) = (take n data)[i := v, j := u]"
    and "length ((take n data @ drop n rb)[i := v, j := u]) = length rb"
proof -
  let ?xs = "take n data"
  from assms have len: "length ?xs = n" by simp
  obtain ys1 where 1: "length ys1 = length (drop n rb)" "(?xs @ drop n rb)[i := v] = ?xs[i := v] @ ys1"
    using update_append_prefix [of "drop n rb" ?xs i v] by blast
  obtain ys2 where 2: "length ys2 = length ys1" "(?xs[i := v] @ ys1)[j := u] = ?xs[i := v, j := u] @ ys2"
    using update_append_prefix [of ys1 "?xs[i := v]" j u] by blast
  from 1 2 len show "take n ((?xs @ drop n rb)[i := v, j := u]) = ?xs[i := v, j := u]"
    by simp
  from assms show "length ((?xs @ drop n rb)[i := v, j := u]) = length rb"
    by simp
qed

lemma read_loop_step:
  "read_loop ip rt wb rb (ReadPacket data peer # es) =
     (if peer \<noteq> ip
      then read_loop ip rt wb (take (min (length data) (length rb)) data
                               @ drop (min (length data) (length rb)) rb) es
      else if take (min (length data) (length rb))
                (if rt = ipv6_ICMPTypeEchoReply
                 then (take (min (length data) (length rb)) data
                       @ drop (min (length data) (length rb)) rb)[2 := 0, 3 := 0]
                 else take (min (length data) (length rb)) data
                      @ drop (min (length data) (length rb)) rb) = wb
      then ([], Some (True, []))
      else read_loop ip rt wb
             (if rt = ipv6_ICMPTypeEchoReply
              then (take (min (length data) (length rb)) data
                    @ drop (min (length data) (length rb)) rb)[2 := 0, 3 := 0]
              else take (min (length data) (length rb)) data
                   @ drop (min (length data) (length rb)) rb) es)"
  by (simp only: read_loop.simps Let_def)

lemma read_loop_buffer:
  "length rb = length rb' \<Longrightarrow> read_loop ip rt wb rb es = read_loop ip rt wb rb' es"
proof (induction es arbitrary: rb rb')
  case Nil
  show ?case by simp
next
  case (Cons e es)
  show ?case
  proof (cases e)
    case ReadTimeout
    then show ?thesis by simp
  next
    case ReadError
    with Cons.IH [OF Cons.prems] show ?thesis by simp
  next
    case (ReadPacket data peer)
    define n where "n = min (length data) (length rb)"
    define A where "A = take n data @ drop n rb"
    define A' where "A' = take n data @ drop n rb'"
    define B where "B = (if rt = ipv6_ICMPTypeEchoReply then A[2 := 0, 3 := 0] else A)"
    define B' where "B' = (if rt = ipv6_ICMPTypeEchoReply then A'[2 := 0, 3 := 0] else A')"
    have n': "n = min (length data) (length rb')"
      using Cons.prems by (simp add: n_def)
    have n: "n \<le> length data" "n \<le> length rb" "n \<le> length rb'"
      using Cons.prems by (simp_all add: n_def)
    have lA: "length A = length A'"
      using Cons.prems by (simp add: A_def A'_def)
    have lB: "length B = length B'"
      using lA by (simp add: B_def B'_def)
    have tA: "take n A = take n A'"
      using n by (simp add: A_def A'_def)
    have tB: "take n B = take n B'"
      using compared_bytes(1) [OF n(1) n(2), of 2 0 3 0]
        compared_bytes(1) [OF n(1) n(3), of 2 0 3 0] tA
      by (simp add: B_def B'_def A_def A'_def)
    have L: "read_loop ip rt wb rb (e # es) =
       (if peer \<noteq> ip then read_loop ip rt wb A es
        else if take n B = wb then ([], Some (True, [])) else read_loop ip rt wb B es)"
      unfolding ReadPacket read_loop_step B_def A_def n_def by (rule refl)
    have R: "read_loop ip rt wb rb' (e # es) =
       (if peer \<noteq> ip then read_loop ip rt wb A' es
        else if take n B' = wb then ([], Some (True, [])) else read_loop ip rt wb B' es)"
      unfolding ReadPacket read_loop_step B'_def A'_def n' by (rule refl)
    show ?thesis
      unfolding L R Cons.IH [OF lA] Cons.IH [OF lB] tB by (rule refl)
  qed
qed


lemma read_loop_packet:
  fixes data :: "byte list" and rb :: "byte list" and rt :: icmp_type
  defines "n \<equiv> min (length data) (length rb)"
  defines "cmp \<equiv> (if rt = ipv6_ICMPTypeEchoReply then (take n data)[2 := 0, 3 := 0] else take n data)"
  shows "read_loop ip rt wb rb (ReadPacket data peer # es) =
           (if peer = ip \<and> cmp = wb then ([], Some (True, [])) else read_loop ip rt wb rb es)"
proof -
  define A where "A = take n data @ drop n rb"
  define B where "B = (if rt = ipv6_ICMPTypeEchoReply then A[2 := 0, 3 := 0] else A)"
  have n: "n \<le> length data" "n \<le> length rb" by (simp_all add: n_def)
  have lA: "length A = length rb"
    using n by (simp add: A_def)
  have lB: "length B = length rb"
    using lA by (simp add: B_def)
  have tB: "take n B = cmp"
    using compared_bytes(1) [OF n, of 2 0 3 0] n by (simp add: B_def A_def cmp_def)
  have L: "read_loop ip rt wb rb (ReadPacket data peer # es) =
       (if peer \<noteq> ip then read_loop ip rt wb A es
        else if take n B = wb then ([], Some (True, [])) else read_loop ip rt wb B es)"
    unfolding read_loop_step B_def A_def n_def by (rule refl)
  show ?thesis
    unfolding L read_loop_buffer [OF lA] read_loop_buffer [OF lB] tB by simp
qed


lemma read_loop_registry_eq:
  "read_loop_registry ip rt wb rb es =
     (fst (read_loop ip rt wb rb es), map_option fst (snd (read_loop ip rt wb rb es)))"
proof (induction es arbitrary: rb)
  case Nil
  show ?case by simp
next
  case (Cons e es)
  show ?case
  proof (cases e)
    case ReadTimeout
    then show ?thesis by simp
  next
    case ReadError
    then show ?thesis by (simp add: Cons.IH split: prod.splits)
  next
    case (ReadPacket data peer)
    then show ?thesis by (simp only: read_loop.simps read_loop_registry.simps Let_def Cons.IH) simp
  qed
qed

lemma read_loop_error:
  "read_loop ip rt wb rb (ReadError # es) =
     (Errorf ''Error reading from socket for %s: %s'' # fst (read_loop ip rt wb rb es),
      snd (read_loop ip rt wb rb es))"
  by (simp split: prod.splits)

lemma read_loop_returns:
  "snd (read_loop ip rt wb rb es) = None
   \<or> snd (read_loop ip rt wb rb es) = Some (True, [])
   \<or> snd (read_loop ip rt wb rb es) = Some (False, ''Timeout reading from socket'')"
proof (induction es)
  case Nil
  show ?case by simp
next
  case (Cons e es)
  show ?case
  proof (cases e)
    case ReadTimeout
    then show ?thesis by simp
  next
    case ReadError
    with Cons show ?thesis by (simp only: read_loop_error snd_conv)
  next
    case (ReadPacket data peer)
    with Cons show ?thesis by (simp only: read_loop_packet) simp
  qed
qed

text \<open>
  C7: in the read loop of both ICMP probers, a packet whose sender is not the resolved
  address, or whose bytes as the loop compares them (the \<open>n\<close> bytes read, with the
  checksum bytes cleared when the reply type is the IPv6 echo reply) differ from the
  expected reply, is discarded: the loop goes on as if the packet had not come, so a packet
  either ends the probe with success or changes nothing. A read error that is a timeout
  ends the probe as a failure; any other read error is logged and the loop goes on.
\<close>

theorem read_loop_discards:
  "(peer \<noteq> ip
      \<or> (if rt = ipv6_ICMPTypeEchoReply
          then (take (min (length data) (length rb)) data)[2 := 0, 3 := 0]
          else take (min (length data) (length rb)) data) \<noteq> wb
     \<longrightarrow> read_loop ip rt wb rb (ReadPacket data peer # es) = read_loop ip rt wb rb es
         \<and> read_loop_registry ip rt wb rb (ReadPacket data peer # es)
             = read_loop_registry ip rt wb rb es)
   \<and> (read_loop ip rt wb rb (ReadPacket data peer # es) = ([], Some (True, []))
      \<or> read_loop ip rt wb rb (ReadPacket data peer # es) = read_loop ip rt wb rb es)
   \<and> read_loop ip rt wb rb (ReadTimeout # es)
       = ([Warnf ''Timeout reading from socket for %s: %s''],
          Some (False, ''Timeout reading from socket''))
   \<and> read_loop_registry ip rt wb rb (ReadTimeout # es)
       = ([Warnf ''Timeout reading from socket for %s: %s''], Some False)
   \<and> read_loop ip rt wb rb (ReadError # es)
       = (Errorf ''Error reading from socket for %s: %s'' # fst (read_loop ip rt wb rb es),
          snd (read_loop ip rt wb rb es))
   \<and> read_loop_registry ip rt wb rb (ReadError # es)
       = (Errorf ''Error reading from socket for %s: %s''
            # fst (read_loop_registry ip rt wb rb es),
          snd (read_loop_registry ip rt wb rb es))"
proof (intro conjI impI)
  assume m: "peer \<noteq> ip
      \<or> (if rt = ipv6_ICMPTypeEchoReply
          then (take (min (length data) (length rb)) data)[2 := 0, 3 := 0]
          else take (min (length data) (length rb)) data) \<noteq> wb"
  then show 1: "read_loop ip rt wb rb (ReadPacket data peer # es) = read_loop ip rt wb rb es"
    by (simp only: read_loop_packet) auto
  then show "read_loop_registry ip rt wb rb (ReadPacket data peer # es)
             = read_loop_registry ip rt wb rb es"
    by (simp only: read_loop_registry_eq)
next
  show "read_loop ip rt wb rb (ReadPacket data peer # es) = ([], Some (True, []))
      \<or> read_loop ip rt wb rb (ReadPacket data peer # es) = read_loop ip rt wb rb es"
    by (simp only: read_loop_packet) simp
next
  show "read_loop ip rt wb rb (ReadTimeout # es)
       = ([Warnf ''Timeout reading from socket for %s: %s''],
          Some (False, ''Timeout reading from socket''))"
    by simp
next
  show "read_loop_registry ip rt wb rb (ReadTimeout # es)
       = ([Warnf ''Timeout reading from socket for %s: %s''], Some False)"
    by simp
next
  show "read_loop ip rt wb rb (ReadError # es)
       = (Errorf ''Error reading from socket for %s: %s'' # fst (read_loop ip rt wb rb es),
          snd (read_loop ip rt wb rb es))"
    by (rule read_loop_error)
next
  show "read_loop_registry ip rt wb rb (ReadError # es)
       = (Errorf ''Error reading from socket for %s: %s''
            # fst (read_loop_registry ip rt wb rb es),
          snd (read_loop_registry ip rt wb rb es))"
    by (simp split: prod.splits)
qed

theorem read_loop_discards_witness:
  "[0, 0, 0, 0, 16, 146, 0, 9] \<noteq> [0, 0, 0, 0, 16, 146, 0, 1 :: byte]
   \<and> read_loop ''192.0.2.1'' ipv4_ICMPTypeEchoReply [0, 0, 0, 0, 16, 146, 0, 1]
        (replicate 1500 0)
        [ReadPacket [0, 0, 0, 0, 16, 146, 0, 9] ''192.0.2.1'', ReadError, ReadTimeout]
      = ([Errorf ''Error reading from socket for %s: %s'',
          Warnf ''Timeout reading from socket for %s: %s''],
         Some (False, ''Timeout reading from socket''))"
proof -
  let ?wb = "[0, 0, 0, 0, 16, 146, 0, 1 :: byte]"
  let ?data = "[0, 0, 0, 0, 16, 146, 0, 9 :: byte]"
  have h: "?data \<noteq> ?wb" by simp
  from read_loop_discards [of "''192.0.2.1''" "''192.0.2.1''" ipv4_ICMPTypeEchoReply ?data
      "replicate 1500 0" ?wb "[ReadError, ReadTimeout]"] h
  have 1: "read_loop ''192.0.2.1'' ipv4_ICMPTypeEchoReply ?wb (replicate 1500 0)
             (ReadPacket ?data ''192.0.2.1'' # [ReadError, ReadTimeout])
           = read_loop ''192.0.2.1'' ipv4_ICMPTypeEchoReply ?wb (replicate 1500 0)
               [ReadError, ReadTimeout]"
    by simp
  from read_loop_discards [of "''192.0.2.1''" "''192.0.2.1''" ipv4_ICMPTypeEchoReply ?data
      "replicate 1500 0" ?wb "[ReadTimeout]"]
  have 2: "read_loop ''192.0.2.1'' ipv4_ICMPTypeEchoReply ?wb (replicate 1500 0)
             [ReadError, ReadTimeout]
           = ([Errorf ''Error reading from socket for %s: %s'',
               Warnf ''Timeout reading from socket for %s: %s''],
              Some (False, ''Timeout reading from socket''))"
    by simp
  from h 1 2 show ?thesis by simp
qed


subsection \<open>From the socket to the read loop\<close>

lemma probeICMP_echo_lookups:
  "icmp_lookups (fst (probeICMP_echo env ip w lk s)) = lk"
  by (simp add: probeICMP_echo_def Let_def split: option.splits prod.splits)

lemma probeICMP_echo_written:
  "icmp_written (fst (probeICMP_echo env ip w lk s))
     = w @ [(''probe_ip_protocol'', if To4_ok ip then 4 else 6)]"
  by (simp add: probeICMP_echo_def Let_def split: option.splits prod.splits)

lemma read_loop_not_resolving:
  "read_loop ip rt wb rb es \<noteq> (l, Some (False, ''Error resolving address''))"
  using read_loop_returns [of ip rt wb rb es] by auto

lemma probeICMP_echo_returned:
  "icmp_returned (fst (probeICMP_echo env ip w lk s)) \<noteq> Some (False, ''Error resolving address'')"
proof (cases "To4_ok ip")
  case True
  then show ?thesis
    by (auto simp: probeICMP_echo_def Let_def read_loop_not_resolving
        split: option.splits prod.splits)
next
  case False
  then show ?thesis
    by (auto simp: probeICMP_echo_def Let_def read_loop_not_resolving
        split: option.splits prod.splits)
qed

lemma probeICMP_echo_registry:
  "reg_returned (fst (probeICMP_registry_echo env ip t lk s))
     = map_option fst (icmp_returned (fst (probeICMP_echo env ip w lk s)))
   \<and> snd (probeICMP_registry_echo env ip t lk s) = snd (probeICMP_echo env ip w lk s)
   \<and> reg_lookups (fst (probeICMP_registry_echo env ip t lk s)) = lk
   \<and> reg_logged (fst (probeICMP_registry_echo env ip t lk s))
       = icmp_logged (fst (probeICMP_echo env ip w lk s))
   \<and> probeIPProtocolGauge (fst (probeICMP_registry_echo env ip t lk s))
       = (if To4_ok ip then 4 else 6)
   \<and> probeDNSLookupTimeSeconds (fst (probeICMP_registry_echo env ip t lk s)) = t"
  by (simp add: probeICMP_echo_def probeICMP_registry_echo_def Let_def read_loop_registry_eq
      split: option.splits prod.splits)

subsection \<open>The probe around the loop\<close>

lemma probeICMP_unfold:
  "probeICMP env target module s =
     (case (if icmp_ResolveIPAddr env (icmp_preferred module) target = None
               \<and> icmp_fallback module \<noteq> []
            then icmp_ResolveIPAddr env (icmp_fallback module) target
            else icmp_ResolveIPAddr env (icmp_preferred module) target) of
        None \<Rightarrow>
          (\<lparr>icmp_returned = Some (False, ''Error resolving address''),
            icmp_written = [(''probe_dns_lookup_time_seconds'', resolve_time env)],
            icmp_lookups =
              (if icmp_ResolveIPAddr env (icmp_preferred module) target = None
                  \<and> icmp_fallback module \<noteq> []
               then [(icmp_preferred module, target), (icmp_fallback module, target)]
               else [(icmp_preferred module, target)]),
            icmp_logged = [Warnf ''Error resolving address %s: %s'']\<rparr>, s)
      | Some ip \<Rightarrow>
          probeICMP_echo env ip [(''probe_dns_lookup_time_seconds'', resolve_time env)]
            (if icmp_ResolveIPAddr env (icmp_preferred module) target = None
                \<and> icmp_fallback module \<noteq> []
             then [(icmp_preferred module, target), (icmp_fallback module, target)]
             else [(icmp_preferred module, target)]) s)"
  unfolding probeICMP_def Let_def by (rule refl)

lemma probeICMP_registry_unfold:
  "probeICMP_registry env target module s =
     (case (if icmp_ResolveIPAddr env (icmp_preferred module) target = None
               \<and> icmp_fallback module \<noteq> []
            then icmp_ResolveIPAddr env (icmp_fallback module) target
            else icmp_ResolveIPAddr env (icmp_preferred module) target) of
        None \<Rightarrow>
          (\<lparr>reg_returned = Some False, probeIPProtocolGauge = 0,
            probeDNSLookupTimeSeconds = 0 + resolve_time env,
            reg_lookups =
              (if icmp_ResolveIPAddr env (icmp_preferred module) target = None
                  \<and> icmp_fallback module \<noteq> []
               then [(icmp_preferred module, target), (icmp_fallback module, target)]
               else [(icmp_preferred module, target)]),
            reg_logged = [Warnf ''Error resolving address %s: %s'']\<rparr>, s)
      | Some ip \<Rightarrow>
          probeICMP_registry_echo env ip (0 + resolve_time env)
            (if icmp_ResolveIPAddr env (icmp_preferred module) target = None
                \<and> icmp_fallback module \<noteq> []
             then [(icmp_preferred module, target), (icmp_fallback module, target)]
             else [(icmp_preferred module, target)]) s)"
  unfolding probeICMP_registry_def Let_def by (rule refl)

lemma probeICMP_lookups:
  "icmp_lookups (fst (probeICMP env target module s)) =
     (if icmp_ResolveIPAddr env (icmp_preferred module) target = None
         \<and> icmp_fallback module \<noteq> []
      then [(icmp_preferred module, target), (icmp_fallback module, target)]
      else [(icmp_preferred module, target)])"
  unfolding probeICMP_unfold
  by (simp only: probeICMP_echo_lookups split: option.split) simp

lemma probeICMP_resolution_failure:
  "icmp_returned (fst (probeICMP env target module s)) = Some (False, ''Error resolving address'')
   \<longleftrightarrow> icmp_ResolveIPAddr env (icmp_preferred module) target = None
       \<and> (icmp_fallback module = []
          \<or> icmp_ResolveIPAddr env (icmp_fallback module) target = None)"
  unfolding probeICMP_unfold
  by (auto simp: probeICMP_echo_returned split: option.splits if_splits)


subsection \<open>The two implementations\<close>

text \<open>The ICMP probes of \<^verbatim>\<open>example.com\<close>, evaluated.\<close>

lemma eval_ping:
  "probeICMP ping_env ''example.com'' default_module 0 =
     (\<lparr>icmp_returned = Some (True, []),
       icmp_written = [(''probe_dns_lookup_time_seconds'', 1500000), (''probe_ip_protocol'', 4)],
       icmp_lookups = [(''ip6'', ''example.com''), (''ip4'', ''example.com'')],
       icmp_logged = [Errorf ''Error reading from socket for %s: %s'']\<rparr>, 1)"
  by (simp add: probeICMP_def probeICMP_echo_def icmp_protocol_def icmp_preferred_def
      icmp_fallback_def ping_env_def default_module_def only_ip4_def echo_bytes_def
      getICMPSequence_def Let_def)

lemma eval_unresolved_ping:
  "probeICMP unresolved_ping_env ''example.com'' default_module 0 =
     (\<lparr>icmp_returned = Some (False, ''Error resolving address''),
       icmp_written = [(''probe_dns_lookup_time_seconds'', 1500000)],
       icmp_lookups = [(''ip6'', ''example.com''), (''ip4'', ''example.com'')],
       icmp_logged = [Warnf ''Error resolving address %s: %s'']\<rparr>, 0)"
  by (simp add: probeICMP_def icmp_protocol_def icmp_preferred_def
      icmp_fallback_def ping_env_def unresolved_ping_env_def default_module_def Let_def)

lemma eval_unresolved_ping_registry:
  "probeICMP_registry unresolved_ping_env ''example.com'' default_module 0 =
     (\<lparr>reg_returned = Some False, probeIPProtocolGauge = 0,
       probeDNSLookupTimeSeconds = 1500000,
       reg_lookups = [(''ip6'', ''example.com''), (''ip4'', ''example.com'')],
       reg_logged = [Warnf ''Error resolving address %s: %s'']\<rparr>, 0)"
  by (simp add: probeICMP_registry_def icmp_protocol_def icmp_preferred_def
      icmp_fallback_def ping_env_def unresolved_ping_env_def default_module_def Let_def)

text \<open>
  C10, as stated, fails in its last part: the two implementations do not differ in whether
  the DNS lookup time is reported when the resolution fails. Both report it before they
  test the error: the one writes the line, the other adds the time to its gauge.
\<close>

theorem probeICMP_both_report_lookup_time:
  "icmp_returned (fst (probeICMP unresolved_ping_env ''example.com'' default_module 0))
     = Some (False, ''Error resolving address'')
   \<and> icmp_written (fst (probeICMP unresolved_ping_env ''example.com'' default_module 0))
       = [(''probe_dns_lookup_time_seconds'', 1500000)]
   \<and> reg_returned (fst (probeICMP_registry unresolved_ping_env ''example.com'' default_module 0))
       = Some False
   \<and> probeDNSLookupTimeSeconds
         (fst (probeICMP_registry unresolved_ping_env ''example.com'' default_module 0))
       = 1500000"
  by (simp add: eval_unresolved_ping eval_unresolved_ping_registry)

text \<open>
  C10, amended: for every target, module, counter value and sequence of network events
  the two ICMP implementations return the same success or failure, make the same lookups,
  write the same log and leave the sequence counter at the same value, and both report the
  DNS lookup time, also when the resolution fails. They differ in how the metrics are
  surfaced: every line that the one writes is the value of the gauge of that name in the
  other, and the gauge \<^verbatim>\<open>probe_ip_protocol\<close> stays at 0 where the one writes no such
  line (when the resolution fails).
\<close>

theorem probeICMP_variants_agree:
  "reg_returned (fst (probeICMP_registry env target module s))
     = map_option fst (icmp_returned (fst (probeICMP env target module s)))
   \<and> snd (probeICMP_registry env target module s) = snd (probeICMP env target module s)
   \<and> reg_lookups (fst (probeICMP_registry env target module s))
       = icmp_lookups (fst (probeICMP env target module s))
   \<and> reg_logged (fst (probeICMP_registry env target module s))
       = icmp_logged (fst (probeICMP env target module s))
   \<and> probeDNSLookupTimeSeconds (fst (probeICMP_registry env target module s)) = resolve_time env
   \<and> icmp_written (fst (probeICMP env target module s))
       = (''probe_dns_lookup_time_seconds'',
          probeDNSLookupTimeSeconds (fst (probeICMP_registry env target module s)))
         # (if probeIPProtocolGauge (fst (probeICMP_registry env target module s)) = 0 then []
            else [(''probe_ip_protocol'',
                   probeIPProtocolGauge (fst (probeICMP_registry env target module s)))])"
proof (cases "(if icmp_ResolveIPAddr env (icmp_preferred module) target = None
               \<and> icmp_fallback module \<noteq> []
            then icmp_ResolveIPAddr env (icmp_fallback module) target
            else icmp_ResolveIPAddr env (icmp_preferred module) target)")
  case None
  then show ?thesis
    unfolding probeICMP_unfold probeICMP_registry_unfold by simp
next
  case (Some ip)
  let ?lk = "(if icmp_ResolveIPAddr env (icmp_preferred module) target = None
                \<and> icmp_fallback module \<noteq> []
             then [(icmp_preferred module, target), (icmp_fallback module, target)]
             else [(icmp_preferred module, target)])"
  have a: "probeICMP env target module s =
            probeICMP_echo env ip [(''probe_dns_lookup_time_seconds'', resolve_time env)] ?lk s"
    unfolding probeICMP_unfold Some by simp
  have b: "probeICMP_registry env target module s =
            probeICMP_registry_echo env ip (resolve_time env) ?lk s"
    unfolding probeICMP_registry_unfold Some by simp
  show ?thesis
    unfolding a b
    using probeICMP_echo_registry [of env ip "resolve_time env" ?lk s
        "[(''probe_dns_lookup_time_seconds'', resolve_time env)]"]
    by (simp add: probeICMP_echo_written probeICMP_echo_lookups)
qed



section \<open>Address resolution in the HTTP and ICMP probers\<close>

lemma fail_if_matches_error:
  "fail_if_matches m body es = Some (b, e, l) \<Longrightarrow> e \<noteq> ''Error resolving address''"
  by (induction es) (auto split: option.splits if_splits)

lemma fail_if_not_matches_error:
  "fail_if_not_matches m body es = Some (b, e, l) \<Longrightarrow> e \<noteq> ''Error resolving address''"
  by (induction es) (auto split: option.splits if_splits)

lemma matchRegularExpressions_error:
  "matchRegularExpressions env reader config = (b, e, l) \<Longrightarrow> e \<noteq> ''Error resolving address''"
  by (auto simp: matchRegularExpressions_def split: option.splits
      dest: fail_if_matches_error fail_if_not_matches_error)

lemma probeHTTP_do_error:
  "probe_error (probeHTTP_do env config client w lk request) \<noteq> ''Error resolving address''"
proof (cases "client_Do env client request")
  case (Pair vias res)
  show ?thesis
  proof (cases res)
    case DoFailed
    with Pair show ?thesis
      by (simp add: failed_probeHTTP_do)
  next
    case (DoResponse resp e)
    with Pair show ?thesis
      by (cases "TLS resp")
         (auto simp: probeHTTP_do_def Let_def split: prod.splits
          dest: matchRegularExpressions_error)
  qed
qed

lemma probeHTTP_request_error:
  "probe_error (probeHTTP_request env target module config dialProtocol lk)
     \<noteq> ''Error resolving address''"
  by (simp add: probeHTTP_request_def Let_def probeHTTP_do_error split: option.splits)

lemma probeHTTP_resolution:
  assumes tcp: "http_protocol module = ''tcp''"
    and parse: "url_Parse env (http_target target) = Some url_Host"
  defines "host \<equiv> (case http_SplitHostPort env url_Host of None \<Rightarrow> url_Host | Some (h, p) \<Rightarrow> h)"
  shows "lookups (probeHTTP env target module) =
           (if http_ResolveIPAddr env (http_preferred module) host \<noteq> None
            then [(http_preferred module, host)]
            else [(http_preferred module, host), (http_fallback module, host)])"
    and "probe_error (probeHTTP env target module) = ''Error resolving address''
         \<longleftrightarrow> http_ResolveIPAddr env (http_preferred module) host = None
             \<and> http_ResolveIPAddr env (http_fallback module) host = None"
proof -
  show "lookups (probeHTTP env target module) =
           (if http_ResolveIPAddr env (http_preferred module) host \<noteq> None
            then [(http_preferred module, host)]
            else [(http_preferred module, host), (http_fallback module, host)])"
    by (cases "http_ResolveIPAddr env (http_preferred module) host";
        cases "http_ResolveIPAddr env (http_fallback module) host")
       (simp_all add: probeHTTP_def Let_def tcp parse host_def [symmetric]
          lookups_probeHTTP_request)
  show "probe_error (probeHTTP env target module) = ''Error resolving address''
         \<longleftrightarrow> http_ResolveIPAddr env (http_preferred module) host = None
             \<and> http_ResolveIPAddr env (http_fallback module) host = None"
    by (cases "http_ResolveIPAddr env (http_preferred module) host";
        cases "http_ResolveIPAddr env (http_fallback module) host")
       (simp_all add: probeHTTP_def Let_def tcp parse host_def [symmetric]
          probeHTTP_request_error)
qed

lemma http_defaults:
  assumes "HTTP_Protocol (HTTP module) = [] \<or> HTTP_Protocol (HTTP module) = ''tcp''"
  shows "http_protocol module = ''tcp''"
    and "HTTP_PreferredIPProtocol (HTTP module) = [] \<or> HTTP_PreferredIPProtocol (HTTP module) = ''ip6''
         \<Longrightarrow> http_preferred module = ''ip6'' \<and> http_fallback module = ''ip4''"
    and "HTTP_PreferredIPProtocol (HTTP module) = ''ip4''
         \<Longrightarrow> http_preferred module = ''ip4'' \<and> http_fallback module = ''ip6''"
  using assms by (auto simp: http_protocol_def http_preferred_def http_fallback_def)

lemma icmp_defaults:
  assumes "ICMP_Protocol (ICMP module) = [] \<or> ICMP_Protocol (ICMP module) = ''icmp''"
  shows "ICMP_PreferredIPProtocol (ICMP module) = [] \<or> ICMP_PreferredIPProtocol (ICMP module) = ''ip6''
         \<Longrightarrow> icmp_preferred module = ''ip6'' \<and> icmp_fallback module = ''ip4''"
    and "ICMP_PreferredIPProtocol (ICMP module) = ''ip4''
         \<Longrightarrow> icmp_preferred module = ''ip4'' \<and> icmp_fallback module = ''ip6''"
  using assms by (auto simp: icmp_protocol_def icmp_preferred_def icmp_fallback_def Let_def)

lemma icmp_forced:
  "ICMP_Protocol (ICMP module) = ''icmp4''
     \<Longrightarrow> icmp_preferred module = ''ip4'' \<and> icmp_fallback module = []"
  "ICMP_Protocol (ICMP module) = ''icmp6''
     \<Longrightarrow> icmp_preferred module = ''ip6'' \<and> icmp_fallback module = []"
  by (simp_all add: icmp_protocol_def icmp_preferred_def icmp_fallback_def Let_def)

text \<open>
  C2: the probers resolve the target in the preferred family first and, if that fails,
  in the other family; the probe returns \<^verbatim>\<open>Error resolving address\<close> exactly when
  both lookups fail. In \<^verbatim>\<open>probeHTTP\<close> with protocol \<^verbatim>\<open>tcp\<close> (the default) the
  preferred family is \<^verbatim>\<open>ip6\<close> when none is configured, and the host looked up is the
  host of the target URL without its port. In \<^verbatim>\<open>probeICMP\<close> with protocol
  \<^verbatim>\<open>icmp\<close> (the default) the same holds for the target itself; with protocol
  \<^verbatim>\<open>icmp4\<close> or \<^verbatim>\<open>icmp6\<close> the family is \<^verbatim>\<open>ip4\<close> or \<^verbatim>\<open>ip6\<close>
  whatever is configured, the fallback is empty and there is one lookup only.
\<close>

theorem resolution_preferred_then_fallback:
  "((HTTP_Protocol (HTTP module) = [] \<or> HTTP_Protocol (HTTP module) = ''tcp'')
      \<and> (HTTP_PreferredIPProtocol (HTTP module) = []
           \<or> HTTP_PreferredIPProtocol (HTTP module) = ''ip6'')
     \<longrightarrow> http_preferred module = ''ip6'' \<and> http_fallback module = ''ip4'')
   \<and> ((HTTP_Protocol (HTTP module) = [] \<or> HTTP_Protocol (HTTP module) = ''tcp'')
      \<and> HTTP_PreferredIPProtocol (HTTP module) = ''ip4''
     \<longrightarrow> http_preferred module = ''ip4'' \<and> http_fallback module = ''ip6'')
   \<and> ((HTTP_Protocol (HTTP module) = [] \<or> HTTP_Protocol (HTTP module) = ''tcp'')
      \<and> url_Parse henv (http_target target) = Some url_Host
      \<and> host = (case http_SplitHostPort henv url_Host of None \<Rightarrow> url_Host | Some (h, p) \<Rightarrow> h)
     \<longrightarrow> lookups (probeHTTP henv target module) =
           (if http_ResolveIPAddr henv (http_preferred module) host \<noteq> None
            then [(http_preferred module, host)]
            else [(http_preferred module, host), (http_fallback module, host)])
         \<and> (probe_error (probeHTTP henv target module) = ''Error resolving address''
            \<longleftrightarrow> http_ResolveIPAddr henv (http_preferred module) host = None
                \<and> http_ResolveIPAddr henv (http_fallback module) host = None))
   \<and> ((ICMP_Protocol (ICMP module) = [] \<or> ICMP_Protocol (ICMP module) = ''icmp'')
      \<and> (ICMP_PreferredIPProtocol (ICMP module) = []
           \<or> ICMP_PreferredIPProtocol (ICMP module) = ''ip6'')
     \<longrightarrow> icmp_preferred module = ''ip6'' \<and> icmp_fallback module = ''ip4'')
   \<and> ((ICMP_Protocol (ICMP module) = [] \<or> ICMP_Protocol (ICMP module) = ''icmp'')
      \<and> ICMP_PreferredIPProtocol (ICMP module) = ''ip4''
     \<longrightarrow> icmp_preferred module = ''ip4'' \<and> icmp_fallback module = ''ip6'')
   \<and> (ICMP_Protocol (ICMP module) = ''icmp4''
     \<longrightarrow> icmp_preferred module = ''ip4'' \<and> icmp_fallback module = [])
   \<and> (ICMP_Protocol (ICMP module) = ''icmp6''
     \<longrightarrow> icmp_preferred module = ''ip6'' \<and> icmp_fallback module = [])
   \<and> icmp_lookups (fst (probeICMP env target module s)) =
       (if icmp_ResolveIPAddr env (icmp_preferred module) target = None
           \<and> icmp_fallback module \<noteq> []
        then [(icmp_preferred module, target), (icmp_fallback module, target)]
        else [(icmp_preferred module, target)])
   \<and> (icmp_returned (fst (probeICMP env target module s))
         = Some (False, ''Error resolving address'')
      \<longleftrightarrow> icmp_ResolveIPAddr env (icmp_preferred module) target = None
          \<and> (icmp_fallback module = []
             \<or> icmp_ResolveIPAddr env (icmp_fallback module) target = None))"
proof (intro conjI impI)
  assume "(HTTP_Protocol (HTTP module) = [] \<or> HTTP_Protocol (HTTP module) = ''tcp'')
      \<and> (HTTP_PreferredIPProtocol (HTTP module) = []
           \<or> HTTP_PreferredIPProtocol (HTTP module) = ''ip6'')"
  then show "http_preferred module = ''ip6''" "http_fallback module = ''ip4''"
    using http_defaults(2) [of module] by blast+
next
  assume "(HTTP_Protocol (HTTP module) = [] \<or> HTTP_Protocol (HTTP module) = ''tcp'')
      \<and> HTTP_PreferredIPProtocol (HTTP module) = ''ip4''"
  then show "http_preferred module = ''ip4''" "http_fallback module = ''ip6''"
    using http_defaults(3) [of module] by blast+
next
  assume a: "(HTTP_Protocol (HTTP module) = [] \<or> HTTP_Protocol (HTTP module) = ''tcp'')
      \<and> url_Parse henv (http_target target) = Some url_Host
      \<and> host = (case http_SplitHostPort henv url_Host of None \<Rightarrow> url_Host | Some (h, p) \<Rightarrow> h)"
  then have tcp: "http_protocol module = ''tcp''"
    using http_defaults(1) [of module] by blast
  from a have parse: "url_Parse henv (http_target target) = Some url_Host" by blast
  from a have host: "host = (case http_SplitHostPort henv url_Host of None \<Rightarrow> url_Host | Some (h, p) \<Rightarrow> h)"
    by blast
  show "lookups (probeHTTP henv target module) =
           (if http_ResolveIPAddr henv (http_preferred module) host \<noteq> None
            then [(http_preferred module, host)]
            else [(http_preferred module, host), (http_fallback module, host)])"
    unfolding host by (rule probeHTTP_resolution(1) [OF tcp parse])
  show "probe_error (probeHTTP henv target module) = ''Error resolving address''
            \<longleftrightarrow> http_ResolveIPAddr henv (http_preferred module) host = None
                \<and> http_ResolveIPAddr henv (http_fallback module) host = None"
    unfolding host by (rule probeHTTP_resolution(2) [OF tcp parse])
next
  assume "(ICMP_Protocol (ICMP module) = [] \<or> ICMP_Protocol (ICMP module) = ''icmp'')
      \<and> (ICMP_PreferredIPProtocol (ICMP module) = []
           \<or> ICMP_PreferredIPProtocol (ICMP module) = ''ip6'')"
  then show "icmp_preferred module = ''ip6''" "icmp_fallback module = ''ip4''"
    using icmp_defaults(1) [of module] by blast+
next
  assume "(ICMP_Protocol (ICMP module) = [] \<or> ICMP_Protocol (ICMP module) = ''icmp'')
      \<and> ICMP_PreferredIPProtocol (ICMP module) = ''ip4''"
  then show "icmp_preferred module = ''ip4''" "icmp_fallback module = ''ip6''"
    using icmp_defaults(2) [of module] by blast+
next
  assume "ICMP_Protocol (ICMP module) = ''icmp4''"
  then show "icmp_preferred module = ''ip4''" "icmp_fallback module = []"
    using icmp_forced(1) [of module] by blast+
next
  assume "ICMP_Protocol (ICMP module) = ''icmp6''"
  then show "icmp_preferred module = ''ip6''" "icmp_fallback module = []"
    using icmp_forced(2) [of module] by blast+
next
  show "icmp_lookups (fst (probeICMP env target module s)) =
       (if icmp_ResolveIPAddr env (icmp_preferred module) target = None
           \<and> icmp_fallback module \<noteq> []
        then [(icmp_preferred module, target), (icmp_fallback module, target)]
        else [(icmp_preferred module, target)])"
    by (rule probeICMP_lookups)
  show "(icmp_returned (fst (probeICMP env target module s))
         = Some (False, ''Error resolving address''))
      = (icmp_ResolveIPAddr env (icmp_preferred module) target = None
          \<and> (icmp_fallback module = []
             \<or> icmp_ResolveIPAddr env (icmp_fallback module) target = None))"
    by (rule probeICMP_resolution_failure)
qed

theorem resolution_preferred_then_fallback_witness:
  "http_preferred default_module = ''ip6'' \<and> http_fallback default_module = ''ip4''
   \<and> lookups (probeHTTP plain_http_env ''example.com'' default_module)
       = [(''ip6'', ''example.com''), (''ip4'', ''example.com'')]
   \<and> probe_error (probeHTTP plain_http_env ''example.com'' default_module)
       \<noteq> ''Error resolving address''
   \<and> probe_error (probeHTTP unresolved_http_env ''example.com'' default_module)
       = ''Error resolving address''
   \<and> icmp_preferred default_module = ''ip6'' \<and> icmp_fallback default_module = ''ip4''
   \<and> icmp_lookups (fst (probeICMP ping_env ''example.com'' default_module 0))
       = [(''ip6'', ''example.com''), (''ip4'', ''example.com'')]
   \<and> icmp_preferred (default_module\<lparr>ICMP := \<lparr>ICMP_Protocol = ''icmp4'',
                                              ICMP_PreferredIPProtocol = ''ip6''\<rparr>\<rparr>) = ''ip4''
   \<and> icmp_lookups (fst (probeICMP unresolved_ping_env ''example.com''
         (default_module\<lparr>ICMP := \<lparr>ICMP_Protocol = ''icmp4'',
                                  ICMP_PreferredIPProtocol = ''ip6''\<rparr>\<rparr>) 0))
       = [(''ip4'', ''example.com'')]
   \<and> icmp_preferred (default_module\<lparr>ICMP := \<lparr>ICMP_Protocol = ''icmp6'',
                                              ICMP_PreferredIPProtocol = ''ip4''\<rparr>\<rparr>) = ''ip6''
   \<and> icmp_lookups (fst (probeICMP unresolved_ping_env ''example.com''
         (default_module\<lparr>ICMP := \<lparr>ICMP_Protocol = ''icmp6'',
                                  ICMP_PreferredIPProtocol = ''ip4''\<rparr>\<rparr>) 0))
       = [(''ip6'', ''example.com'')]"
proof -
  let ?m4 = "default_module\<lparr>ICMP := \<lparr>ICMP_Protocol = ''icmp4'',
                                        ICMP_PreferredIPProtocol = ''ip6''\<rparr>\<rparr>"
  let ?m6 = "default_module\<lparr>ICMP := \<lparr>ICMP_Protocol = ''icmp6'',
                                        ICMP_PreferredIPProtocol = ''ip4''\<rparr>\<rparr>"
  have hp: "HTTP_Protocol (HTTP default_module) = []"
    "HTTP_PreferredIPProtocol (HTTP default_module) = []"
    "ICMP_Protocol (ICMP default_module) = []"
    "ICMP_PreferredIPProtocol (ICMP default_module) = []"
    by (simp_all add: default_module_def default_http_def)
  have parse: "url_Parse plain_http_env (http_target ''example.com'') = Some ''example.com''"
    "url_Parse unresolved_http_env (http_target ''example.com'') = Some ''example.com''"
    by (simp_all add: plain_http_env_def unresolved_http_env_def http_target_def)
  have split: "(case http_SplitHostPort plain_http_env ''example.com'' of
                  None \<Rightarrow> ''example.com'' | Some (h, p) \<Rightarrow> h) = ''example.com''"
    "(case http_SplitHostPort unresolved_http_env ''example.com'' of
                  None \<Rightarrow> ''example.com'' | Some (h, p) \<Rightarrow> h) = ''example.com''"
    by (simp_all add: plain_http_env_def unresolved_http_env_def)
  have res: "http_ResolveIPAddr plain_http_env ''ip6'' ''example.com'' = None"
    "http_ResolveIPAddr plain_http_env ''ip4'' ''example.com'' \<noteq> None"
    "http_ResolveIPAddr unresolved_http_env ''ip6'' ''example.com'' = None"
    "http_ResolveIPAddr unresolved_http_env ''ip4'' ''example.com'' = None"
    "icmp_ResolveIPAddr ping_env ''ip6'' ''example.com'' = None"
    "icmp_ResolveIPAddr unresolved_ping_env ''ip4'' ''example.com'' = None"
    "icmp_ResolveIPAddr unresolved_ping_env ''ip6'' ''example.com'' = None"
    by (simp_all add: plain_http_env_def unresolved_http_env_def ping_env_def
        unresolved_ping_env_def only_ip4_def)
  have p4: "ICMP_Protocol (ICMP ?m4) = ''icmp4''" and p6: "ICMP_Protocol (ICMP ?m6) = ''icmp6''"
    by simp_all
  note a = resolution_preferred_then_fallback [of default_module plain_http_env
      "''example.com''" "''example.com''" "''example.com''" ping_env 0]
  note b = resolution_preferred_then_fallback [of default_module unresolved_http_env
      "''example.com''" "''example.com''" "''example.com''" ping_env 0]
  note c = resolution_preferred_then_fallback [of ?m4 plain_http_env
      "''example.com''" "''example.com''" "''example.com''" unresolved_ping_env 0]
  note d = resolution_preferred_then_fallback [of ?m6 plain_http_env
      "''example.com''" "''example.com''" "''example.com''" unresolved_ping_env 0]
  from a hp parse split res
  have 1: "http_preferred default_module = ''ip6''" "http_fallback default_module = ''ip4''"
    "icmp_preferred default_module = ''ip6''" "icmp_fallback default_module = ''ip4''"
    by simp_all
  from a hp parse split res 1
  have 2: "lookups (probeHTTP plain_http_env ''example.com'' default_module)
       = [(''ip6'', ''example.com''), (''ip4'', ''example.com'')]"
    "probe_error (probeHTTP plain_http_env ''example.com'' default_module)
       \<noteq> ''Error resolving address''"
    "icmp_lookups (fst (probeICMP ping_env ''example.com'' default_module 0))
       = [(''ip6'', ''example.com''), (''ip4'', ''example.com'')]"
    by simp_all
  from b hp parse split res 1
  have 3: "probe_error (probeHTTP unresolved_http_env ''example.com'' default_module)
       = ''Error resolving address''"
    by simp
  from c p4 have 4: "icmp_preferred ?m4 = ''ip4''" "icmp_fallback ?m4 = []"
    by blast+
  from c 4 have 5: "icmp_lookups (fst (probeICMP unresolved_ping_env ''example.com'' ?m4 0))
       = [(''ip4'', ''example.com'')]"
    by simp
  from d p6 have 6: "icmp_preferred ?m6 = ''ip6''" "icmp_fallback ?m6 = []"
    by blast+
  from d 6 have 7: "icmp_lookups (fst (probeICMP unresolved_ping_env ''example.com'' ?m6 0))
       = [(''ip6'', ''example.com'')]"
    by simp
  from 1 2 3 4 5 6 7 show ?thesis by simp
qed

section \<open>Properties of the DNS prober\<close>

subsection \<open>The response code\<close>

lemma append_rcodes_Some:
  "append_rcodes tbl names acc = Some rcs \<longleftrightarrow>
     (\<forall>n \<in> set names. tbl n \<noteq> None) \<and> rcs = acc @ map (\<lambda>n. the (tbl n)) names"
  by (induction names arbitrary: acc) (auto split: option.splits)

lemma append_rcodes_None:
  "append_rcodes tbl names acc = None \<longleftrightarrow> (\<exists>n \<in> set names. tbl n = None)"
  by (induction names arbitrary: acc) (auto split: option.splits)

lemma rcode_listed_iff: "rcode_listed rcode rcs \<longleftrightarrow> rcode \<in> set rcs"
  by (induction rcs) auto

lemma validRcode_iff:
  "validRcode tbl rcode valid \<longleftrightarrow>
     (case valid of
        None \<Rightarrow> rcode = map_index tbl ''NOERROR''
      | Some names \<Rightarrow> (\<forall>n \<in> set names. tbl n \<noteq> None) \<and> (\<exists>n \<in> set names. tbl n = Some rcode))"
proof (cases valid)
  case None
  then show ?thesis by (simp add: validRcode_def)
next
  case given: (Some names)
  show ?thesis
  proof (cases "append_rcodes tbl names []")
    case None
    then have "\<exists>n \<in> set names. tbl n = None"
      by (simp add: append_rcodes_None)
    with given None show ?thesis
      by (auto simp: validRcode_def)
  next
    case (Some rcs)
    then have all: "\<forall>n \<in> set names. tbl n \<noteq> None" and rcs: "rcs = map (\<lambda>n. the (tbl n)) names"
      by (simp_all add: append_rcodes_Some)
    have "rcode \<in> set rcs \<longleftrightarrow> (\<exists>n \<in> set names. tbl n = Some rcode)"
      using all unfolding rcs by force
    with given Some all show ?thesis
      by (simp add: validRcode_def rcode_listed_iff)
  qed
qed

lemma ProbeDNS_cases [case_names failed validated]:
  obtains "ProbeDNS env target module = dns_failed"
  | dialProtocol question target' response where
      "Exchange env dialProtocol question target' = Some response"
      "ProbeDNS env target module = ProbeDNS_validate env module response"
proof -
  define transport where "transport = (if TransportProtocol (DNS module) = [] then ''udp''
                       else TransportProtocol (DNS module))"
  define tp where "tp = (case dns_SplitHostPort env target of
                           None \<Rightarrow> (target, ''53'') | Some (h, p) \<Rightarrow> (h, p))"
  define qt where "qt = (if QueryType (DNS module) \<noteq> []
                             then StringToType env (QueryType (DNS module))
                             else Some 255)"
  have u: "ProbeDNS env target module =
     (if transport = ''udp'' \<or> transport = ''tcp'' then
        (case chooseProtocol env (DNS_PreferredIPProtocol (DNS module)) (fst tp) of
           None \<Rightarrow> dns_failed
         | Some ip \<Rightarrow>
             (case qt of
                None \<Rightarrow> dns_failed
              | Some q \<Rightarrow>
                  (case Exchange env (if \<not> To4_ok ip then transport @ ''6'' else transport @ ''4'')
                          (Fqdn env (QueryName (DNS module)), q)
                          (JoinHostPort env (ip_String ip) (snd tp)) of
                     None \<Rightarrow> dns_failed
                   | Some response \<Rightarrow> ProbeDNS_validate env module response)))
      else dns_failed)"
    unfolding ProbeDNS_def Let_def transport_def tp_def qt_def
    by (simp only: split_beta)
  show ?thesis
  proof (cases "transport = ''udp'' \<or> transport = ''tcp''")
    case False
    with u that(1) show ?thesis by simp
  next
    case t: True
    show ?thesis
    proof (cases "chooseProtocol env (DNS_PreferredIPProtocol (DNS module)) (fst tp)")
      case None
      with u t that(1) show ?thesis by simp
    next
      case ip: (Some ip)
      show ?thesis
      proof (cases qt)
        case None
        with u t ip that(1) show ?thesis by simp
      next
        case q: (Some q)
        show ?thesis
        proof (cases "Exchange env (if \<not> To4_ok ip then transport @ ''6'' else transport @ ''4'')
                          (Fqdn env (QueryName (DNS module)), q)
                          (JoinHostPort env (ip_String ip) (snd tp))")
          case None
          with u t ip q that(1) show ?thesis by simp
        next
          case (Some response)
          with u t ip q have "ProbeDNS env target module = ProbeDNS_validate env module response"
            by simp
          with Some that(2) show ?thesis by blast
        qed
      qed
    qed
  qed
qed

text \<open>
  C3, as stated, fails. With the table of the library, where NOERROR is 0: when
  \<open>ValidRcodes\<close> is an empty list that is not nil, the response code NOERROR does not
  pass, and no code does; and when the list holds a name that the table does not know, a
  response code that maps from another name of the list does not pass either.
\<close>

theorem validRcode_empty_or_unknown:
  "map_index rfc1035_rcodes ''NOERROR'' = 0
   \<and> \<not> validRcode rfc1035_rcodes 0 (Some [])
   \<and> rfc1035_rcodes ''NOERROR'' = Some 0
   \<and> \<not> validRcode rfc1035_rcodes 0 (Some [''NOERROR'', ''BOGUS''])"
  by (simp add: validRcode_def map_index_def rfc1035_rcodes_def)

text \<open>
  C3, amended: the rcode check passes iff \<open>ValidRcodes\<close> is nil and the response code
  is the one of NOERROR, or \<open>ValidRcodes\<close> is a list whose names are all known to
  \<^verbatim>\<open>dns.StringToRcode\<close> and the response code maps from one of them. A response whose
  code does not pass makes \<^verbatim>\<open>ProbeDNS\<close> return \<^verbatim>\<open>false\<close>: a probe that succeeds
  has received a response whose code passes.
\<close>

theorem validRcode_checks:
  "(validRcode tbl rcode valid \<longleftrightarrow>
      (case valid of
         None \<Rightarrow> rcode = map_index tbl ''NOERROR''
       | Some names \<Rightarrow> (\<forall>n \<in> set names. tbl n \<noteq> None)
                       \<and> (\<exists>n \<in> set names. tbl n = Some rcode)))
   \<and> (\<not> validRcode (StringToRcode env) (Rcode response) (ValidRcodes (DNS module))
      \<longrightarrow> \<not> dns_success (ProbeDNS_validate env module response))
   \<and> (dns_success (ProbeDNS env target module)
      \<longrightarrow> (\<exists>network question server answer.
            Exchange env network question server = Some answer
            \<and> validRcode (StringToRcode env) (Rcode answer) (ValidRcodes (DNS module))))"
proof (intro conjI impI)
  show "validRcode tbl rcode valid \<longleftrightarrow>
      (case valid of
         None \<Rightarrow> rcode = map_index tbl ''NOERROR''
       | Some names \<Rightarrow> (\<forall>n \<in> set names. tbl n \<noteq> None)
                       \<and> (\<exists>n \<in> set names. tbl n = Some rcode))"
    by (rule validRcode_iff)
next
  assume "\<not> validRcode (StringToRcode env) (Rcode response) (ValidRcodes (DNS module))"
  then show "\<not> dns_success (ProbeDNS_validate env module response)"
    by (simp add: ProbeDNS_validate_def)
next
  assume ok: "dns_success (ProbeDNS env target module)"
  show "\<exists>network question server answer.
            Exchange env network question server = Some answer
            \<and> validRcode (StringToRcode env) (Rcode answer) (ValidRcodes (DNS module))"
  proof (cases env target module rule: ProbeDNS_cases)
    case failed
    with ok show ?thesis by (simp add: dns_failed_def)
  next
    case (validated dialProtocol question target' response)
    with ok have "validRcode (StringToRcode env) (Rcode response) (ValidRcodes (DNS module))"
      by (simp add: ProbeDNS_validate_def split: if_splits)
    with validated(1) show ?thesis by blast
  qed
qed

text \<open>The DNS probes of the name server that answers NXDOMAIN, evaluated.\<close>

lemma eval_nxdomain:
  "ProbeDNS nxdomain_env ''192.0.2.53'' default_module =
     \<lparr>dns_success = False, numAnswer = 0, numAuthority = 1, numAdditional = 0\<rparr>"
  "ProbeDNS nxdomain_env ''192.0.2.53'' expect_nxdomain =
     \<lparr>dns_success = True, numAnswer = 0, numAuthority = 1, numAdditional = 0\<rparr>"
  by (simp_all add: ProbeDNS_def ProbeDNS_validate_def nxdomain_env_def nxdomain_def
      default_module_def expect_nxdomain_def no_validator_def validRcode_def validRRs_def
      map_index_def rfc1035_rcodes_def Let_def)

theorem validRcode_checks_witness:
  "validRcode rfc1035_rcodes 3 (Some [''NOERROR'', ''NXDOMAIN''])
   \<and> \<not> validRcode (StringToRcode nxdomain_env) (Rcode nxdomain) (ValidRcodes (DNS default_module))
   \<and> \<not> dns_success (ProbeDNS_validate nxdomain_env default_module nxdomain)
   \<and> dns_success (ProbeDNS nxdomain_env ''192.0.2.53'' expect_nxdomain)
   \<and> (\<exists>network question server answer.
        Exchange nxdomain_env network question server = Some answer
        \<and> validRcode (StringToRcode nxdomain_env) (Rcode answer)
             (ValidRcodes (DNS expect_nxdomain)))"
proof -
  have t: "\<forall>n \<in> set [''NOERROR'', ''NXDOMAIN'']. rfc1035_rcodes n \<noteq> None"
    "\<exists>n \<in> set [''NOERROR'', ''NXDOMAIN'']. rfc1035_rcodes n = Some 3"
    by (simp_all add: rfc1035_rcodes_def)
  from validRcode_checks [of rfc1035_rcodes 3 "Some [''NOERROR'', ''NXDOMAIN'']"
      nxdomain_env nxdomain default_module "''192.0.2.53''"] t
  have 1: "validRcode rfc1035_rcodes 3 (Some [''NOERROR'', ''NXDOMAIN''])"
    by simp
  have n: "\<not> validRcode (StringToRcode nxdomain_env) (Rcode nxdomain)
               (ValidRcodes (DNS default_module))"
    by (simp add: validRcode_def nxdomain_env_def nxdomain_def default_module_def
        map_index_def rfc1035_rcodes_def)
  from validRcode_checks [of rfc1035_rcodes 3 "Some [''NOERROR'', ''NXDOMAIN'']"
      nxdomain_env nxdomain default_module "''192.0.2.53''"] n
  have 2: "\<not> dns_success (ProbeDNS_validate nxdomain_env default_module nxdomain)"
    by blast
  have s: "dns_success (ProbeDNS nxdomain_env ''192.0.2.53'' expect_nxdomain)"
    by (simp add: eval_nxdomain)
  from validRcode_checks [of rfc1035_rcodes 3 "Some [''NOERROR'', ''NXDOMAIN'']"
      nxdomain_env nxdomain expect_nxdomain "''192.0.2.53''"] s
  have 3: "\<exists>network question server answer.
        Exchange nxdomain_env network question server = Some answer
        \<and> validRcode (StringToRcode nxdomain_env) (Rcode answer)
             (ValidRcodes (DNS expect_nxdomain))"
    by blast
  from 1 n 2 s 3 show ?thesis by blast
qed

subsection \<open>The record sections\<close>

lemma rr_fail_if_matches_iff:
  "rr_fail_if_matches m rr res \<longleftrightarrow> (\<forall>re \<in> set res. m re rr = Some False)"
  by (induction res) (auto split: option.splits)

lemma rr_fail_if_not_matches_iff:
  "rr_fail_if_not_matches m rr res \<longleftrightarrow> (\<forall>re \<in> set res. m re rr = Some True)"
  by (induction res) (auto split: option.splits)

lemma validRRs_loop_iff:
  "validRRs_loop m v rrs \<longleftrightarrow>
     (\<forall>rr \<in> set rrs. (\<forall>re \<in> set (RR_FailIfMatchesRegexp v). m re rr = Some False)
                    \<and> (\<forall>re \<in> set (RR_FailIfNotMatchesRegexp v). m re rr = Some True))"
  by (induction rrs) (auto simp: rr_fail_if_matches_iff rr_fail_if_not_matches_iff)


text \<open>
  C4, as stated, fails: a set with one record that matches no pattern of
  \<open>FailIfMatchesRegexp\<close> fails validation when a pattern of that list does not compile.
\<close>

theorem validRRs_uncompilable_pattern:
  "literal_match '':['' ''example.com. 300 IN A 192.0.2.1'' = None
   \<and> \<not> validRRs literal_match [''example.com. 300 IN A 192.0.2.1'']
         \<lparr>RR_FailIfMatchesRegexp = ['':[''], RR_FailIfNotMatchesRegexp = []\<rparr>"
  by (simp add: validRRs_def literal_match_def)

text \<open>
  C4, amended: an empty RR set fails validation iff \<open>FailIfNotMatchesRegexp\<close> is not
  empty (a match is required and there is nothing to match); a set that is not empty fails
  iff for some record some pattern of \<open>FailIfMatchesRegexp\<close> matches its text or does
  not compile, or some pattern of \<open>FailIfNotMatchesRegexp\<close> does not match its text or
  does not compile.
\<close>

theorem validRRs_checks:
  "validRRs m rrs v \<longleftrightarrow>
     (if rrs = [] then RR_FailIfNotMatchesRegexp v = []
      else (\<forall>rr \<in> set rrs.
              (\<forall>re \<in> set (RR_FailIfMatchesRegexp v). m re rr = Some False)
              \<and> (\<forall>re \<in> set (RR_FailIfNotMatchesRegexp v). m re rr = Some True)))"
  by (simp add: validRRs_def validRRs_loop_iff)

theorem validRRs_checks_witness:
  "validRRs literal_match [''example.com. 300 IN A 192.0.2.1'']
     \<lparr>RR_FailIfMatchesRegexp = [''AAAA''], RR_FailIfNotMatchesRegexp = [''192'']\<rparr>
   \<and> \<not> validRRs literal_match [''example.com. 300 IN A 192.0.2.1'']
         \<lparr>RR_FailIfMatchesRegexp = [''IN A''], RR_FailIfNotMatchesRegexp = []\<rparr>
   \<and> \<not> validRRs literal_match []
         \<lparr>RR_FailIfMatchesRegexp = [], RR_FailIfNotMatchesRegexp = [''192'']\<rparr>
   \<and> validRRs literal_match []
         \<lparr>RR_FailIfMatchesRegexp = [''IN A''], RR_FailIfNotMatchesRegexp = []\<rparr>"
proof -
  have m: "literal_match ''AAAA'' ''example.com. 300 IN A 192.0.2.1'' = Some False"
    "literal_match ''192'' ''example.com. 300 IN A 192.0.2.1'' = Some True"
    "literal_match ''IN A'' ''example.com. 300 IN A 192.0.2.1'' = Some True"
    by code_simp+
  from validRRs_checks [of literal_match "[''example.com. 300 IN A 192.0.2.1'']"
      "\<lparr>RR_FailIfMatchesRegexp = [''AAAA''], RR_FailIfNotMatchesRegexp = [''192'']\<rparr>"] m
  have 1: "validRRs literal_match [''example.com. 300 IN A 192.0.2.1'']
     \<lparr>RR_FailIfMatchesRegexp = [''AAAA''], RR_FailIfNotMatchesRegexp = [''192'']\<rparr>"
    by simp
  from validRRs_checks [of literal_match "[''example.com. 300 IN A 192.0.2.1'']"
      "\<lparr>RR_FailIfMatchesRegexp = [''IN A''], RR_FailIfNotMatchesRegexp = []\<rparr>"] m
  have 2: "\<not> validRRs literal_match [''example.com. 300 IN A 192.0.2.1'']
         \<lparr>RR_FailIfMatchesRegexp = [''IN A''], RR_FailIfNotMatchesRegexp = []\<rparr>"
    by simp
  from validRRs_checks [of literal_match "[]"
      "\<lparr>RR_FailIfMatchesRegexp = [], RR_FailIfNotMatchesRegexp = [''192'']\<rparr>"]
  have 3: "\<not> validRRs literal_match []
         \<lparr>RR_FailIfMatchesRegexp = [], RR_FailIfNotMatchesRegexp = [''192'']\<rparr>"
    by simp
  from validRRs_checks [of literal_match "[]"
      "\<lparr>RR_FailIfMatchesRegexp = [''IN A''], RR_FailIfNotMatchesRegexp = []\<rparr>"]
  have 4: "validRRs literal_match []
         \<lparr>RR_FailIfMatchesRegexp = [''IN A''], RR_FailIfNotMatchesRegexp = []\<rparr>"
    by simp
  from 1 2 3 4 show ?thesis by blast
qed

end
